theory Spec2Isabelle
  imports Complex_Main
begin

section \<open>Python values and exceptions\<close>

text \<open>
  The module \<^verbatim>\<open>Lib/special/special.py\<close> is Python 2 code over the Numeric array
  library.  Its functions either return a value or raise; a raise is the \<open>Inl\<close>
  branch of a sum.  The exceptions are the ones the source raises itself
  (\<^verbatim>\<open>TypeError\<close>, \<^verbatim>\<open>ValueError\<close>), the \<^verbatim>\<open>NameError\<close> Python raises for a global
  name that is not bound, the \<^verbatim>\<open>RuntimeError\<close> it raises when the recursion limit
  is reached, and the two failures of the array machinery behind the broadcasting
  adapter.
\<close>

datatype exn =
    TypeError string
  | ValueError string
  | NameError string
  | RuntimeError string
  | BroadcastError
  | ConversionError

text \<open>
  An optional argument as \<^verbatim>\<open>__init__\<close> inspects it: \<^verbatim>\<open>None\<close>, a string
  (\<^verbatim>\<open>types.StringType\<close>), or an object of any other type.
\<close>

datatype pyopt = PyNone | PyStr string | PyOther

text \<open>
  A Python object as \<^verbatim>\<open>general_function.__init__\<close> sees it: whether
  \<^verbatim>\<open>callable(obj)\<close> holds, whether \<^verbatim>\<open>type(obj) is types.ClassType\<close>, what calling it
  on a list of positional arguments returns, and its \<^verbatim>\<open>__doc__\<close> attribute.
\<close>

record ('a, 'b) pyobject =
  callable :: bool
  is_ClassType :: bool
  call :: "'a list \<Rightarrow> 'b"
  obj_doc :: pyopt

section \<open>The broadcasting adapter: construction\<close>

text \<open>
  The attributes \<^verbatim>\<open>self.thefunc\<close>, \<^verbatim>\<open>self.__doc__\<close> and \<^verbatim>\<open>self.otypes\<close> of an
  instance of \<^verbatim>\<open>general_function\<close>.
\<close>

record ('a, 'b) general_function =
  self_thefunc :: "('a, 'b) pyobject"
  self_doc :: pyopt
  self_otypes :: string

text \<open>
  \<^verbatim>\<open>
  def __init__(self,pyfunc,otypes=None,doc=None):
      if not callable(pyfunc) or type(pyfunc) is types.ClassType:
          raise TypeError, "Object is not a callable Python object."
      self.thefunc = pyfunc
      if doc is None:
          self.__doc__ = pyfunc.__doc__
      else:
          self.__doc__ = doc
      if otypes is None:
          self.otypes=''
      else:
          if isinstance(otypes,types.StringType):
              self.otypes=otypes
          else:
              raise ValueError, "Output types must be a string."
  \<close>
\<close>

fun general_function_init ::
  "('a, 'b) pyobject \<Rightarrow> pyopt \<Rightarrow> pyopt \<Rightarrow> exn + ('a, 'b) general_function" where
  "general_function_init pyfunc otypes doc =
     (if \<not> callable pyfunc \<or> is_ClassType pyfunc
      then Inl (TypeError ''Object is not a callable Python object.'')
      else
        let d = (if doc = PyNone then obj_doc pyfunc else doc) in
        (case otypes of
           PyNone \<Rightarrow> Inr \<lparr>self_thefunc = pyfunc, self_doc = d, self_otypes = ''''\<rparr>
         | PyStr s \<Rightarrow> Inr \<lparr>self_thefunc = pyfunc, self_doc = d, self_otypes = s\<rparr>
         | PyOther \<Rightarrow> Inl (ValueError ''Output types must be a string.'')))"

text \<open>
  The specification calls every failure of the construction a
  \<^verbatim>\<open>ConfigurationError\<close>: these are the two exceptions \<^verbatim>\<open>__init__\<close> raises.
\<close>

fun ConfigurationError :: "exn \<Rightarrow> bool" where
  "ConfigurationError e =
     (e = TypeError ''Object is not a callable Python object.'' \<or>
      e = ValueError ''Output types must be a string.'')"

section \<open>Numbers and arrays of the function catalog\<close>

text \<open>
  A Python number is an integer or a \<^verbatim>\<open>float\<close>.  \<open>PyInt i\<close> is the integer of value
  \<open>i\<close>, an \<^verbatim>\<open>int\<close> or, beyond the machine range, a \<^verbatim>\<open>long\<close>; only the derivative
  wrappers tell the two apart (\<open>is_IntType\<close> below).  The floats of this type are
  modelled as real numbers: rounding, overflow, infinities and NaN are not part of
  the model, so every statement below about such a float is a statement about the
  real number it stands for.  The order of a derivative wrapper is the exception:
  it is a double with its rounding (\<open>double\<close> below).  Complex numbers, strings and
  other objects are outside the model of the catalog's arguments.
\<close>

datatype number = PyInt int | PyFloat real

fun val_of :: "number \<Rightarrow> real" where
  "val_of (PyInt i) = of_int i"
| "val_of (PyFloat r) = r"

text \<open>An argument of a catalog function: a number, or a Numeric array of numbers.\<close>

datatype pyval = Scalar number | Array "number list"

text \<open>
  Modelled from the spec: \<^verbatim>\<open>scipy_base.isscalar\<close> is imported by the module and is
  not among the sources; the specification calls it the "is this a scalar"
  predicate of the array library.
\<close>

fun isscalar :: "pyval \<Rightarrow> bool" where
  "isscalar (Scalar n) = True"
| "isscalar (Array ns) = False"

text \<open>
  Modelled from the spec: the ufunc \<^verbatim>\<open>floor\<close> of \<^verbatim>\<open>scipy_base.fastumath\<close>, which is
  not among the sources; one of the "vectorized elementary functions" of the
  elementary math/array library.  It rounds down and returns floats, element by
  element on an array.
\<close>

fun floor_num :: "number \<Rightarrow> number" where
  "floor_num n = PyFloat (of_int \<lfloor>val_of n\<rfloor>)"

fun py_floor :: "pyval \<Rightarrow> pyval" where
  "py_floor (Scalar n) = Scalar (floor_num n)"
| "py_floor (Array ns) = Array (map floor_num ns)"

text \<open>
  Modelled from the spec: the comparisons of the array library ("element-wise
  arithmetic" with broadcasting), which are not among the sources.  \<open>py_cmp\<close> is
  the truth value of a comparison \<^verbatim>\<open>a op b\<close> as an \<^verbatim>\<open>if\<close> or an \<^verbatim>\<open>or\<close> reads it.
  Numbers compare by value.  Arrays are compared element by element (a number is
  stretched over the array), and the resulting array counts as true when one of
  its elements is.  No wrapper's outcome on an array depends on this reading: each
  condition that compares an array also holds \<^verbatim>\<open>not isscalar(nt)\<close>.
\<close>

fun py_cmp :: "(real \<Rightarrow> real \<Rightarrow> bool) \<Rightarrow> pyval \<Rightarrow> pyval \<Rightarrow> bool" where
  "py_cmp op (Scalar a) (Scalar b) = op (val_of a) (val_of b)"
| "py_cmp op (Array xs) (Scalar b) = list_ex (\<lambda>a. op (val_of a) (val_of b)) xs"
| "py_cmp op (Scalar a) (Array ys) = list_ex (\<lambda>b. op (val_of a) (val_of b)) ys"
| "py_cmp op (Array xs) (Array ys) =
     list_ex (\<lambda>(a, b). op (val_of a) (val_of b)) (zip xs ys)"

text \<open>\<^verbatim>\<open>int(x)\<close> of a number truncates towards zero.\<close>

fun py_int :: "number \<Rightarrow> int" where
  "py_int (PyInt i) = i"
| "py_int (PyFloat r) = (if 0 \<le> r then \<lfloor>r\<rfloor> else \<lceil>r\<rceil>)"

text \<open>
  The slice \<^verbatim>\<open>xs[:k]\<close>: the first \<open>k\<close> elements, all of them when there are fewer;
  for a negative \<open>k\<close> all but the last \<open>-k\<close>.
\<close>

definition py_slice_to :: "'a list \<Rightarrow> int \<Rightarrow> 'a list" where
  "py_slice_to xs k =
     (if 0 \<le> k then take (nat k) xs else take (length xs - nat (- k)) xs)"

section \<open>The external routine library\<close>

text \<open>
  The Fortran routines of the module \<^verbatim>\<open>specfun\<close> that the wrappers below call.
  They are not part of the sources and are parameters of the model: a routine takes
  its arguments as the wrapper passes them and returns an opaque result \<open>'r\<close>;
  \<^verbatim>\<open>fcoef\<close> returns the array of expansion coefficients.
\<close>

record ('r, 'c) specfun_module =
  jdzo :: "int \<Rightarrow> 'r"
  cyzo :: "number \<Rightarrow> int \<Rightarrow> bool \<Rightarrow> 'r"
  cerzo :: "pyval \<Rightarrow> 'r"
  airyzo :: "number \<Rightarrow> int \<Rightarrow> 'r"
  klvnzo :: "number \<Rightarrow> int \<Rightarrow> 'r"
  fcoef :: "int \<Rightarrow> int \<Rightarrow> number \<Rightarrow> real \<Rightarrow> 'c list"

text \<open>
  The module binds the routine library by \<^verbatim>\<open>import specfun\<close>, its only plain import
  besides \<^verbatim>\<open>types\<close>.  The other imports (\<^verbatim>\<open>from cephes import *\<close>,
  \<^verbatim>\<open>from Numeric import *\<close>, \<^verbatim>\<open>from scipy_base.fastumath import *\<close> and three names of
  \<^verbatim>\<open>scipy_base\<close>) bring in functions and constants, not a second name for the library,
  and the module assigns none.  So reading the global name \<^verbatim>\<open>specfun\<close> gives the
  library, and reading any other name for it raises \<^verbatim>\<open>NameError\<close>.
\<close>

definition global_name ::
  "('r, 'c) specfun_module \<Rightarrow> string \<Rightarrow> exn + ('r, 'c) specfun_module" where
  "global_name specfun name =
     (if name = ''specfun'' then Inr specfun else Inl (NameError name))"

section \<open>The zero-finding wrappers\<close>

text \<open>
  \<^verbatim>\<open>
  def jnjnp_zeros(nt):
      """Compute nt (<=1400) zeros of the bessel functions Jn and Jn' ..."""
      if not isscalar(nt) or (floor(nt)!=nt) or (nt>1400):
          raise ValueError, "Number must be integer <=1400."
      nt = int(nt)
      zo,n,m,t = specfunc.jdzo(nt)
      return zo,n,m,t
  \<close>
  The test \<^verbatim>\<open>not isscalar(nt)\<close> comes first and \<^verbatim>\<open>or\<close> stops at it, so an array is
  rejected before \<^verbatim>\<open>floor\<close> is applied; this is the second equation.  The routine
  is read from the global name \<^verbatim>\<open>specfunc\<close>, as the source spells it.
\<close>

fun jnjnp_zeros :: "('r, 'c) specfun_module \<Rightarrow> pyval \<Rightarrow> exn + 'r" where
  "jnjnp_zeros specfun (Scalar nt) =
     (if py_cmp (\<noteq>) (py_floor (Scalar nt)) (Scalar nt)
         \<or> py_cmp (>) (Scalar nt) (Scalar (PyInt 1400))
      then Inl (ValueError ''Number must be integer <=1400.'')
      else
        let nt' = py_int nt in
        (case global_name specfun ''specfunc'' of
           Inl e \<Rightarrow> Inl e
         | Inr m \<Rightarrow> Inr (jdzo m nt')))"
| "jnjnp_zeros specfun (Array nts) = Inl (ValueError ''Number must be integer <=1400.'')"

text \<open>
  \<^verbatim>\<open>
  def y0_zeros(nt,complex=1):
      if not isscalar(nt) or (floor(nt)!=nt) or (nt <=0):
          raise ValueError, "Arguments must be scalar positive integer."
      kf = 0
      kc = (complex != 1)
      return specfun.cyzo(nt,kf,kc)
  \<close>
  \<^verbatim>\<open>y1_zeros\<close> and \<^verbatim>\<open>y1p_zeros\<close> differ only in \<^verbatim>\<open>kf\<close> (1 and 2).
\<close>

fun y0_zeros :: "('r, 'c) specfun_module \<Rightarrow> pyval \<Rightarrow> int \<Rightarrow> exn + 'r" where
  "y0_zeros specfun (Scalar nt) complex =
     (if py_cmp (\<noteq>) (py_floor (Scalar nt)) (Scalar nt)
         \<or> py_cmp (\<le>) (Scalar nt) (Scalar (PyInt 0))
      then Inl (ValueError ''Arguments must be scalar positive integer.'')
      else
        let kf = 0; kc = (complex \<noteq> 1) in
        (case global_name specfun ''specfun'' of
           Inl e \<Rightarrow> Inl e
         | Inr m \<Rightarrow> Inr (cyzo m nt kf kc)))"
| "y0_zeros specfun (Array nts) complex =
     Inl (ValueError ''Arguments must be scalar positive integer.'')"

text \<open>
  \<^verbatim>\<open>
  def erf_zeros(nt):
      if (floor(nt)!=nt) or (nt<=0) or not isscalar(nt):
          raise ValueError, "Argument must be positive scalar integer."
      return specfun.cerzo(nt)
  \<close>
  Here the scalar test comes last, so the two comparisons are evaluated on an array
  as well.  \<^verbatim>\<open>fresnelc_zeros\<close>, \<^verbatim>\<open>fresnels_zeros\<close> and \<^verbatim>\<open>fresnel_zeros\<close> have the same
  test.
\<close>

fun erf_zeros :: "('r, 'c) specfun_module \<Rightarrow> pyval \<Rightarrow> exn + 'r" where
  "erf_zeros specfun nt =
     (if py_cmp (\<noteq>) (py_floor nt) nt
         \<or> py_cmp (\<le>) nt (Scalar (PyInt 0))
         \<or> \<not> isscalar nt
      then Inl (ValueError ''Argument must be positive scalar integer.'')
      else
        (case global_name specfun ''specfun'' of
           Inl e \<Rightarrow> Inl e
         | Inr m \<Rightarrow> Inr (cerzo m nt)))"

text \<open>
  \<^verbatim>\<open>
  def ai_zeros(nt):
      kf = 1
      if not isscalar(nt) or (floor(nt)!=nt) or (nt<=0):
          raise ValueError, "nt must be a positive integer scalar."
      return specfun.airyzo(nt,kf)
  \<close>
  \<^verbatim>\<open>bi_zeros\<close> is the same with \<^verbatim>\<open>kf = 2\<close>.
\<close>

fun ai_zeros :: "('r, 'c) specfun_module \<Rightarrow> pyval \<Rightarrow> exn + 'r" where
  "ai_zeros specfun (Scalar nt) =
     (let kf = 1 in
      if py_cmp (\<noteq>) (py_floor (Scalar nt)) (Scalar nt)
         \<or> py_cmp (\<le>) (Scalar nt) (Scalar (PyInt 0))
      then Inl (ValueError ''nt must be a positive integer scalar.'')
      else
        (case global_name specfun ''specfun'' of
           Inl e \<Rightarrow> Inl e
         | Inr m \<Rightarrow> Inr (airyzo m nt kf)))"
| "ai_zeros specfun (Array nts) = Inl (ValueError ''nt must be a positive integer scalar.'')"

fun bi_zeros :: "('r, 'c) specfun_module \<Rightarrow> pyval \<Rightarrow> exn + 'r" where
  "bi_zeros specfun (Scalar nt) =
     (let kf = 2 in
      if py_cmp (\<noteq>) (py_floor (Scalar nt)) (Scalar nt)
         \<or> py_cmp (\<le>) (Scalar nt) (Scalar (PyInt 0))
      then Inl (ValueError ''nt must be a positive integer scalar.'')
      else
        (case global_name specfun ''specfun'' of
           Inl e \<Rightarrow> Inl e
         | Inr m \<Rightarrow> Inr (airyzo m nt kf)))"
| "bi_zeros specfun (Array nts) = Inl (ValueError ''nt must be a positive integer scalar.'')"

text \<open>
  \<^verbatim>\<open>
  def ber_zeros(nt):
      if not isscalar(nt) or (floor(nt)!=nt) or (nt<=0):
          raise ValueError, "nt must be positive integer scalar."
      return specfun.klvnzo(nt,1)
  \<close>
  The other Kelvin wrappers (\<^verbatim>\<open>bei_zeros\<close>, \<^verbatim>\<open>ker_zeros\<close>, \<^verbatim>\<open>kei_zeros\<close>,
  \<^verbatim>\<open>berp_zeros\<close>, \<^verbatim>\<open>beip_zeros\<close>, \<^verbatim>\<open>kerp_zeros\<close>, \<^verbatim>\<open>keip_zeros\<close>) have the same
  test and pass 2 to 8 to \<^verbatim>\<open>klvnzo\<close>.
\<close>

fun ber_zeros :: "('r, 'c) specfun_module \<Rightarrow> pyval \<Rightarrow> exn + 'r" where
  "ber_zeros specfun (Scalar nt) =
     (if py_cmp (\<noteq>) (py_floor (Scalar nt)) (Scalar nt)
         \<or> py_cmp (\<le>) (Scalar nt) (Scalar (PyInt 0))
      then Inl (ValueError ''nt must be positive integer scalar.'')
      else
        (case global_name specfun ''specfun'' of
           Inl e \<Rightarrow> Inl e
         | Inr m \<Rightarrow> Inr (klvnzo m nt 1)))"
| "ber_zeros specfun (Array nts) = Inl (ValueError ''nt must be positive integer scalar.'')"

section \<open>The Mathieu coefficient wrappers\<close>

text \<open>
  \<^verbatim>\<open>print\<close> writes a line to the standard output; the lines written are returned
  beside the result.

  \<^verbatim>\<open>
  def mathieu_even_coef(m,q):
      if not (isscalar(m) and isscalar(q)):
          raise ValueError, "m and q must be scalars."
      if (q < 0):
          raise ValueError, "q >=0"
      if (m != floor(m)) or (m<0):
          raise ValueError, "m must be an integer >=0."

      if (q <= 1):
          qm = 7.5+56.1*sqrt(q)-134.7*q+90.7*sqrt(q)*q
      else:
          qm=17.0+3.1*sqrt(q)-.126*q+.0037*sqrt(q)*q
      km = int(qm+0.5*m)
      if km > 251:
          print "Warning, too many predicted coefficients."
      kd = 1
      m = int(floor(m))
      if m % 2:
          kd = 2

      a = mathieu_a(m,q)
      fc = specfun.fcoef(kd,m,q,a)
      return fc[:km]
  \<close>
  \<^verbatim>\<open>mathieu_a\<close> and \<^verbatim>\<open>mathieu_b\<close> are functions of the \<^verbatim>\<open>cephes\<close> module, parameters
  here.  The estimate \<^verbatim>\<open>qm\<close> is the same expression in both wrappers and is written
  once, as \<open>qm_estimate\<close>.
\<close>

definition qm_estimate :: "real \<Rightarrow> real" where
  "qm_estimate q =
     (if q \<le> 1 then 7.5 + 56.1 * sqrt q - 134.7 * q + 90.7 * sqrt q * q
      else 17.0 + 3.1 * sqrt q - 0.126 * q + 0.0037 * sqrt q * q)"

fun mathieu_even_coef ::
  "('r, 'c) specfun_module \<Rightarrow> (int \<Rightarrow> number \<Rightarrow> real) \<Rightarrow> pyval \<Rightarrow> pyval \<Rightarrow>
     string list \<times> (exn + 'c list)" where
  "mathieu_even_coef specfun mathieu_a (Scalar m) (Scalar q) =
     (if val_of q < 0 then ([], Inl (ValueError ''q >=0''))
      else if py_cmp (\<noteq>) (Scalar m) (py_floor (Scalar m)) \<or> val_of m < 0
      then ([], Inl (ValueError ''m must be an integer >=0.''))
      else
        let qm = qm_estimate (val_of q);
            km = py_int (PyFloat (qm + 0.5 * val_of m));
            out = (if km > 251 then [''Warning, too many predicted coefficients.''] else []);
            m' = py_int (floor_num m);
            kd = (if m' mod 2 \<noteq> 0 then 2 else 1);
            a = mathieu_a m' q
        in (case global_name specfun ''specfun'' of
              Inl e \<Rightarrow> (out, Inl e)
            | Inr md \<Rightarrow> (out, Inr (py_slice_to (fcoef md kd m' q a) km))))"
| "mathieu_even_coef specfun mathieu_a m q =
     ([], Inl (ValueError ''m and q must be scalars.''))"

text \<open>
  \<^verbatim>\<open>
  def mathieu_odd_coef(m,q):
      if not (isscalar(m) and isscalar(q)):
          raise ValueError, "m and q must be scalars."
      if (q < 0):
          raise ValueError, "q >=0"
      if (m != floor(m)) or (m<=0):
          raise ValueError, "m must be an integer > 0"

      if (q <= 1):
          qm = 7.5+56.1*sqrt(q)-134.7*q+90.7*sqrt(q)*q
      else:
          qm=17.0+3.1*sqrt(q)-.126*q+.0037*sqrt(q)*q
      km = int(qm+0.5*m)
      if km > 251:
          print "Warning, too many predicted coefficients."
      kd = 4
      m = int(floor(m))
      if m % 2:
          kd = 3

      b = mathieu_b(m,q)
      fc = specfunc.fcoef(kd,m,q,b)
      return fc[:km]
  \<close>
\<close>

fun mathieu_odd_coef ::
  "('r, 'c) specfun_module \<Rightarrow> (int \<Rightarrow> number \<Rightarrow> real) \<Rightarrow> pyval \<Rightarrow> pyval \<Rightarrow>
     string list \<times> (exn + 'c list)" where
  "mathieu_odd_coef specfun mathieu_b (Scalar m) (Scalar q) =
     (if val_of q < 0 then ([], Inl (ValueError ''q >=0''))
      else if py_cmp (\<noteq>) (Scalar m) (py_floor (Scalar m)) \<or> val_of m \<le> 0
      then ([], Inl (ValueError ''m must be an integer > 0''))
      else
        let qm = qm_estimate (val_of q);
            km = py_int (PyFloat (qm + 0.5 * val_of m));
            out = (if km > 251 then [''Warning, too many predicted coefficients.''] else []);
            m' = py_int (floor_num m);
            kd = (if m' mod 2 \<noteq> 0 then 3 else 4);
            b = mathieu_b m' q
        in (case global_name specfun ''specfunc'' of
              Inl e \<Rightarrow> (out, Inl e)
            | Inr md \<Rightarrow> (out, Inr (py_slice_to (fcoef md kd m' q b) km))))"
| "mathieu_odd_coef specfun mathieu_b m q =
     ([], Inl (ValueError ''m and q must be scalars.''))"

section \<open>The derivative wrappers\<close>

text \<open>
  The order \<open>v\<close> of a derivative wrapper is a Python float, an IEEE 754 double, and
  the wrappers compute \<open>v - 1\<close> and \<open>v + 1\<close> again and again: the rounded results are
  the orders at which the base function is called.  So the order is modelled as a
  double and not as a real number.  \<open>Double m e\<close> is the double of value
  \<open>m * 2 ^ e\<close>, with a significand of exactly 53 bits
  (\<open>2 ^ 52 \<le> \<bar>m\<bar> < 2 ^ 53\<close>) unless it is zero, which is \<open>Double 0 0\<close>; so two doubles
  are equal exactly when their values are.  The exponent is not bounded, and
  infinities, NaN, the sign of zero and subnormal numbers are not part of the
  model: adding or subtracting 1 takes a finite double to a finite double that is
  zero or normal.  An int order is taken as the double of the same value.
\<close>

datatype double = Double int int

fun dval :: "double \<Rightarrow> real" where
  "dval (Double m e) = of_int m * 2 powr of_int e"

text \<open>The number of bits of a positive integer.\<close>

function nbits :: "int \<Rightarrow> nat" where
  "nbits m = (if m \<le> 0 then 0 else Suc (nbits (m div 2)))"
  by pat_completeness auto
termination
  by (relation "measure nat") auto

declare nbits.simps [simp del]

text \<open>
  The double nearest to \<open>m * 2 ^ e\<close>, a tie going to the even significand (the
  rounding of IEEE 754 arithmetic): a significand of fewer than 53 bits is shifted
  up, one of more bits is shifted down by \<open>k\<close> bits and rounded on the \<open>k\<close> bits
  lost.
\<close>

definition round_to_double :: "int \<Rightarrow> int \<Rightarrow> double" where
  "round_to_double m e =
     (if m = 0 then Double 0 0
      else
        let n = nbits \<bar>m\<bar> in
        if n \<le> 53 then Double (m * 2 ^ (53 - n)) (e - int (53 - n))
        else
          let k = n - 53;
              q = \<bar>m\<bar> div 2 ^ k;
              r = \<bar>m\<bar> mod 2 ^ k;
              h = 2 ^ (k - 1);
              q' = (if h < r \<or> (r = h \<and> odd q) then q + 1 else q)
          in if q' = 2 ^ 53 then Double (sgn m * 2 ^ 52) (e + int k + 1)
             else Double (sgn m * q') (e + int k))"

text \<open>
  Addition and subtraction of doubles: the exact sum, at the smaller of the two
  exponents, rounded once.  \<open>double_of_int\<close> is the conversion of a Python int that
  \<^verbatim>\<open>v-1\<close> and \<^verbatim>\<open>v+1\<close> apply to the int 1.
\<close>

fun dadd :: "double \<Rightarrow> double \<Rightarrow> double" where
  "dadd (Double m1 e1) (Double m2 e2) =
     (let e = min e1 e2
      in round_to_double (m1 * 2 ^ nat (e1 - e) + m2 * 2 ^ nat (e2 - e)) e)"

fun dneg :: "double \<Rightarrow> double" where
  "dneg (Double m e) = Double (- m) e"

definition dsub :: "double \<Rightarrow> double \<Rightarrow> double" where
  "dsub x y = dadd x (dneg y)"

definition double_of_int :: "int \<Rightarrow> double" where
  "double_of_int i = round_to_double i 0"

text \<open>
  The double that Python reads for \<^verbatim>\<open>0.1\<close>, \<open>0x1.999999999999ap-4\<close>, and a base
  function that tells this order from every other one.
\<close>

definition one_tenth :: double where
  "one_tenth = Double 7205759403792794 (- 56)"

definition at_one_tenth :: "double \<Rightarrow> unit \<Rightarrow> real" where
  "at_one_tenth v z = (if v = one_tenth then 1 else 0)"

text \<open>
  \<^verbatim>\<open>isinstance(n, types.IntType)\<close> for a Python integer of value \<open>i\<close>: an integer is
  of \<^verbatim>\<open>types.IntType\<close> when it lies in the range of a machine word, between
  \<open>- maxint - 1\<close> and \<open>maxint\<close> where \<open>maxint\<close> is \<^verbatim>\<open>sys.maxint\<close>; outside this range it
  is a \<^verbatim>\<open>long\<close>.
\<close>

fun is_IntType :: "int \<Rightarrow> int \<Rightarrow> bool" where
  "is_IntType maxint i = (- maxint - 1 \<le> i \<and> i \<le> maxint)"

text \<open>
  \<^verbatim>\<open>
  def jvp(v,z,n=1):
      """Return the nth derivative of Jv(z) with respect to z."""
      if not isinstance(n,types.IntType) or (n<0):
          raise ValueError, "n must be a non-negative integer."
      if n == 0:
          return jv(v,z)
      else:
          return (jvp(v-1,z,n-1) - jvp(v+1,z,n-1))/2.0
  \<close>
  The base function (\<^verbatim>\<open>jv\<close>, a ufunc of the \<^verbatim>\<open>cephes\<close> module) is a parameter, and so
  is \<^verbatim>\<open>sys.maxint\<close>.  The argument \<open>z\<close> is of any type.  The values are in a field
  (the reals, or the complex numbers for the Hankel functions) that stands for the
  float results; no statement below uses an identity of its arithmetic, each gives
  a value as the expression the source evaluates.

  Every call of a Python function takes a frame, and Python raises
  \<^verbatim>\<open>RuntimeError\<close> when a call would exceed the recursion limit.  The third argument
  is the number of frames still available: the call itself takes one, and with none
  left it raises before its body runs.  The base function is a C function and takes
  no frame.

  A float \<open>n\<close> is not of \<^verbatim>\<open>types.IntType\<close>, and neither is a \<^verbatim>\<open>long\<close>.  The left
  operand of the subtraction is evaluated first, so its exception is the one that
  propagates.  The five other wrappers are copies of this one over \<^verbatim>\<open>yv\<close>, \<^verbatim>\<open>kv\<close>,
  \<^verbatim>\<open>iv\<close>, \<^verbatim>\<open>hankel1\<close> and \<^verbatim>\<open>hankel2\<close>.
\<close>

fun jvp ::
  "int \<Rightarrow> (double \<Rightarrow> 'z \<Rightarrow> 'a::field_char_0) \<Rightarrow> nat \<Rightarrow> double \<Rightarrow> 'z \<Rightarrow> number \<Rightarrow> exn + 'a" where
  "jvp maxint jv 0 v z n = Inl (RuntimeError ''maximum recursion depth exceeded'')"
| "jvp maxint jv (Suc depth) v z (PyFloat r) =
     Inl (ValueError ''n must be a non-negative integer.'')"
| "jvp maxint jv (Suc depth) v z (PyInt n) =
     (if \<not> is_IntType maxint n \<or> n < 0
      then Inl (ValueError ''n must be a non-negative integer.'')
      else if n = 0 then Inr (jv v z)
      else
        (case jvp maxint jv depth (dsub v (double_of_int 1)) z (PyInt (n - 1)) of
           Inl e \<Rightarrow> Inl e
         | Inr a \<Rightarrow>
            (case jvp maxint jv depth (dadd v (double_of_int 1)) z (PyInt (n - 1)) of
               Inl e \<Rightarrow> Inl e
             | Inr b \<Rightarrow> Inr ((a - b) / 2))))"

fun yvp ::
  "int \<Rightarrow> (double \<Rightarrow> 'z \<Rightarrow> 'a::field_char_0) \<Rightarrow> nat \<Rightarrow> double \<Rightarrow> 'z \<Rightarrow> number \<Rightarrow> exn + 'a" where
  "yvp maxint yv 0 v z n = Inl (RuntimeError ''maximum recursion depth exceeded'')"
| "yvp maxint yv (Suc depth) v z (PyFloat r) =
     Inl (ValueError ''n must be a non-negative integer.'')"
| "yvp maxint yv (Suc depth) v z (PyInt n) =
     (if \<not> is_IntType maxint n \<or> n < 0
      then Inl (ValueError ''n must be a non-negative integer.'')
      else if n = 0 then Inr (yv v z)
      else
        (case yvp maxint yv depth (dsub v (double_of_int 1)) z (PyInt (n - 1)) of
           Inl e \<Rightarrow> Inl e
         | Inr a \<Rightarrow>
            (case yvp maxint yv depth (dadd v (double_of_int 1)) z (PyInt (n - 1)) of
               Inl e \<Rightarrow> Inl e
             | Inr b \<Rightarrow> Inr ((a - b) / 2))))"

fun kvp ::
  "int \<Rightarrow> (double \<Rightarrow> 'z \<Rightarrow> 'a::field_char_0) \<Rightarrow> nat \<Rightarrow> double \<Rightarrow> 'z \<Rightarrow> number \<Rightarrow> exn + 'a" where
  "kvp maxint kv 0 v z n = Inl (RuntimeError ''maximum recursion depth exceeded'')"
| "kvp maxint kv (Suc depth) v z (PyFloat r) =
     Inl (ValueError ''n must be a non-negative integer.'')"
| "kvp maxint kv (Suc depth) v z (PyInt n) =
     (if \<not> is_IntType maxint n \<or> n < 0
      then Inl (ValueError ''n must be a non-negative integer.'')
      else if n = 0 then Inr (kv v z)
      else
        (case kvp maxint kv depth (dsub v (double_of_int 1)) z (PyInt (n - 1)) of
           Inl e \<Rightarrow> Inl e
         | Inr a \<Rightarrow>
            (case kvp maxint kv depth (dadd v (double_of_int 1)) z (PyInt (n - 1)) of
               Inl e \<Rightarrow> Inl e
             | Inr b \<Rightarrow> Inr ((a - b) / 2))))"

fun ivp ::
  "int \<Rightarrow> (double \<Rightarrow> 'z \<Rightarrow> 'a::field_char_0) \<Rightarrow> nat \<Rightarrow> double \<Rightarrow> 'z \<Rightarrow> number \<Rightarrow> exn + 'a" where
  "ivp maxint iv 0 v z n = Inl (RuntimeError ''maximum recursion depth exceeded'')"
| "ivp maxint iv (Suc depth) v z (PyFloat r) =
     Inl (ValueError ''n must be a non-negative integer.'')"
| "ivp maxint iv (Suc depth) v z (PyInt n) =
     (if \<not> is_IntType maxint n \<or> n < 0
      then Inl (ValueError ''n must be a non-negative integer.'')
      else if n = 0 then Inr (iv v z)
      else
        (case ivp maxint iv depth (dsub v (double_of_int 1)) z (PyInt (n - 1)) of
           Inl e \<Rightarrow> Inl e
         | Inr a \<Rightarrow>
            (case ivp maxint iv depth (dadd v (double_of_int 1)) z (PyInt (n - 1)) of
               Inl e \<Rightarrow> Inl e
             | Inr b \<Rightarrow> Inr ((a - b) / 2))))"

fun h1vp ::
  "int \<Rightarrow> (double \<Rightarrow> 'z \<Rightarrow> 'a::field_char_0) \<Rightarrow> nat \<Rightarrow> double \<Rightarrow> 'z \<Rightarrow> number \<Rightarrow> exn + 'a" where
  "h1vp maxint hankel1 0 v z n = Inl (RuntimeError ''maximum recursion depth exceeded'')"
| "h1vp maxint hankel1 (Suc depth) v z (PyFloat r) =
     Inl (ValueError ''n must be a non-negative integer.'')"
| "h1vp maxint hankel1 (Suc depth) v z (PyInt n) =
     (if \<not> is_IntType maxint n \<or> n < 0
      then Inl (ValueError ''n must be a non-negative integer.'')
      else if n = 0 then Inr (hankel1 v z)
      else
        (case h1vp maxint hankel1 depth (dsub v (double_of_int 1)) z (PyInt (n - 1)) of
           Inl e \<Rightarrow> Inl e
         | Inr a \<Rightarrow>
            (case h1vp maxint hankel1 depth (dadd v (double_of_int 1)) z (PyInt (n - 1)) of
               Inl e \<Rightarrow> Inl e
             | Inr b \<Rightarrow> Inr ((a - b) / 2))))"

fun h2vp ::
  "int \<Rightarrow> (double \<Rightarrow> 'z \<Rightarrow> 'a::field_char_0) \<Rightarrow> nat \<Rightarrow> double \<Rightarrow> 'z \<Rightarrow> number \<Rightarrow> exn + 'a" where
  "h2vp maxint hankel2 0 v z n = Inl (RuntimeError ''maximum recursion depth exceeded'')"
| "h2vp maxint hankel2 (Suc depth) v z (PyFloat r) =
     Inl (ValueError ''n must be a non-negative integer.'')"
| "h2vp maxint hankel2 (Suc depth) v z (PyInt n) =
     (if \<not> is_IntType maxint n \<or> n < 0
      then Inl (ValueError ''n must be a non-negative integer.'')
      else if n = 0 then Inr (hankel2 v z)
      else
        (case h2vp maxint hankel2 depth (dsub v (double_of_int 1)) z (PyInt (n - 1)) of
           Inl e \<Rightarrow> Inl e
         | Inr a \<Rightarrow>
            (case h2vp maxint hankel2 depth (dadd v (double_of_int 1)) z (PyInt (n - 1)) of
               Inl e \<Rightarrow> Inl e
             | Inr b \<Rightarrow> Inr ((a - b) / 2))))"

section \<open>Elementary wrappers: sinc, the inverse error functions, gammaincinv\<close>

text \<open>
  Modelled from the spec: the "element-wise arithmetic" and the
  "trigonometric/exponential/power operations" of the elementary math/array
  library, which are not among the sources.  They work element by element; a number
  combined with an array is stretched over it.  The results are kept as floats:
  where Python would keep an \<^verbatim>\<open>int\<close> (the sum of two ints), the float has the same
  value, and only the value matters to what the wrappers below do with it.
\<close>

fun ufunc :: "(real \<Rightarrow> real) \<Rightarrow> pyval \<Rightarrow> pyval" where
  "ufunc f (Scalar a) = Scalar (PyFloat (f (val_of a)))"
| "ufunc f (Array xs) = Array (map (\<lambda>a. PyFloat (f (val_of a))) xs)"

fun binop :: "(real \<Rightarrow> real \<Rightarrow> real) \<Rightarrow> pyval \<Rightarrow> pyval \<Rightarrow> pyval" where
  "binop f (Scalar a) (Scalar b) = Scalar (PyFloat (f (val_of a) (val_of b)))"
| "binop f (Array xs) (Scalar b) = Array (map (\<lambda>a. PyFloat (f (val_of a) (val_of b))) xs)"
| "binop f (Scalar a) (Array ys) = Array (map (\<lambda>b. PyFloat (f (val_of a) (val_of b))) ys)"
| "binop f (Array xs) (Array ys) =
     Array (map (\<lambda>(a, b). PyFloat (f (val_of a) (val_of b))) (zip xs ys))"

text \<open>
  Modelled from the spec: \<^verbatim>\<open>x == c\<close> for a number \<open>c\<close>, an element-wise comparison of
  the array library: 1 or 0, element by element on an array.
\<close>

fun py_eq :: "pyval \<Rightarrow> number \<Rightarrow> pyval" where
  "py_eq (Scalar a) c = Scalar (PyInt (if val_of a = val_of c then 1 else 0))"
| "py_eq (Array xs) c = Array (map (\<lambda>a. PyInt (if val_of a = val_of c then 1 else 0)) xs)"

text \<open>
  Modelled from the spec: the "where-style conditional selection" of the array
  library, \<^verbatim>\<open>where(condition, x, y)\<close> with a number \<open>x\<close>.  The element of the result
  is \<open>x\<close> where the condition is not zero and the element of \<open>y\<close> elsewhere.
\<close>

fun py_where :: "pyval \<Rightarrow> number \<Rightarrow> pyval \<Rightarrow> pyval" where
  "py_where (Scalar c) x (Scalar y) = Scalar (if val_of c \<noteq> 0 then x else y)"
| "py_where (Array cs) x (Scalar y) = Array (map (\<lambda>c. if val_of c \<noteq> 0 then x else y) cs)"
| "py_where (Scalar c) x (Array ys) = Array (map (\<lambda>y. if val_of c \<noteq> 0 then x else y) ys)"
| "py_where (Array cs) x (Array ys) =
     Array (map (\<lambda>(c, y). if val_of c \<noteq> 0 then x else y) (zip cs ys))"

text \<open>
  \<^verbatim>\<open>
  def sinc(x):
      """Returns sin(pi*x)/(pi*x) at all points of array x."""
      w = asarray(x*pi)
      return where(x==0, 1.0, sin(w)/w)
  \<close>
  Both branches of \<^verbatim>\<open>where\<close> are computed.  At an element 0 the quotient is
  \<open>0 / 0\<close>, which the array library computes without raising and \<^verbatim>\<open>where\<close>
  discards; HOL's \<open>0 / 0 = 0\<close> stands for it.
\<close>

definition sinc :: "pyval \<Rightarrow> pyval" where
  "sinc x =
     (let w = binop (*) x (Scalar (PyFloat pi))
      in py_where (py_eq x (PyInt 0)) (PyFloat 1.0) (binop (/) (ufunc sin w) w))"

text \<open>
  \<^verbatim>\<open>
  def erfinv(y):
      return ndtri((y+1)/2.0)/sqrt(2)

  def erfcinv(y):
      return ndtri((2-y)/2.0)/sqrt(2)
  \<close>
  \<^verbatim>\<open>ndtri\<close> is the normal-quantile routine of the \<^verbatim>\<open>cephes\<close> module, a parameter.
\<close>

definition erfinv :: "(real \<Rightarrow> real) \<Rightarrow> pyval \<Rightarrow> pyval" where
  "erfinv ndtri y =
     binop (/) (ufunc ndtri (binop (/) (binop (+) y (Scalar (PyInt 1))) (Scalar (PyFloat 2.0))))
       (Scalar (PyFloat (sqrt 2)))"

definition erfcinv :: "(real \<Rightarrow> real) \<Rightarrow> pyval \<Rightarrow> pyval" where
  "erfcinv ndtri y =
     binop (/) (ufunc ndtri (binop (/) (binop (-) (Scalar (PyInt 2)) y) (Scalar (PyFloat 2.0))))
       (Scalar (PyFloat (sqrt 2)))"

text \<open>
  \<^verbatim>\<open>
  def gammaincinv(a,y):
      """returns the inverse of the incomplete gamma integral in that it
      finds x such that gammainc(a,x)=y
      """
      return gammainccinv(a,1-y)
  \<close>
  \<^verbatim>\<open>gammainccinv\<close> is a ufunc of the \<^verbatim>\<open>cephes\<close> module, a parameter; \<^verbatim>\<open>1-y\<close> is
  computed element by element when \<open>y\<close> is an array, and stays an \<^verbatim>\<open>int\<close> when \<open>y\<close>
  is one.
\<close>

fun rsub :: "int \<Rightarrow> number \<Rightarrow> number" where
  "rsub c (PyInt i) = PyInt (c - i)"
| "rsub c (PyFloat r) = PyFloat (of_int c - r)"

fun py_rsub :: "int \<Rightarrow> pyval \<Rightarrow> pyval" where
  "py_rsub c (Scalar y) = Scalar (rsub c y)"
| "py_rsub c (Array ys) = Array (map (rsub c) ys)"

definition gammaincinv :: "('p \<Rightarrow> pyval \<Rightarrow> 'r) \<Rightarrow> 'p \<Rightarrow> pyval \<Rightarrow> 'r" where
  "gammaincinv gammainccinv a y = gammainccinv a (py_rsub 1 y)"

section \<open>The broadcasting adapter: the call\<close>

text \<open>
  An array: its shape and its elements in row-major order.  An array is well formed
  when it has as many elements as its shape says.
\<close>

record 'a ndarray =
  shape :: "nat list"
  elems :: "'a list"

definition wf_array :: "'a ndarray \<Rightarrow> bool" where
  "wf_array a = (length (elems a) = prod_list (shape a))"

text \<open>
  A positional argument of the adapter: a scalar, a nested sequence, or an array.
\<close>

datatype 'a pyarg = Elem 'a | Seq "'a pyarg list" | Arr "'a ndarray"

text \<open>
  Modelled from the spec: the conversion of an argument to an array view, which
  \<^verbatim>\<open>arraymap\<close> does and which is not among the sources.  "Scalars become rank-0
  arrays; nested sequences become arrays of inferred shape."  A sequence whose
  members do not all have one shape has no inferred shape; the specification names
  no error for it, and the conversion then gives \<open>None\<close>.
\<close>

fun asarray :: "'a pyarg \<Rightarrow> 'a ndarray option" where
  "asarray (Elem x) = Some \<lparr>shape = [], elems = [x]\<rparr>"
| "asarray (Arr a) = Some a"
| "asarray (Seq xs) =
     (case those (map asarray xs) of
        None \<Rightarrow> None
      | Some [] \<Rightarrow> Some \<lparr>shape = [0], elems = []\<rparr>
      | Some (a # as) \<Rightarrow>
          if list_all (\<lambda>b. shape b = shape a) as
          then Some \<lparr>shape = length xs # shape a, elems = concat (map elems (a # as))\<rparr>
          else None)"

text \<open>
  Modelled from the spec: the broadcast shape, computed inside \<^verbatim>\<open>arraymap\<close>.
  "Dimension-wise: sizes must be equal or one of them must be 1, missing leading
  dimensions treated as size 1"; "broadcasting fails if any dimension pair is
  incompatible (neither equal nor 1)".  \<open>broadcast_rev\<close> works on reversed shapes,
  last dimension first, so that the missing leading dimensions are the missing
  tail.
\<close>

fun broadcast_rev :: "nat list \<Rightarrow> nat list \<Rightarrow> nat list option" where
  "broadcast_rev [] ys = Some ys"
| "broadcast_rev (x # xs) [] = Some (x # xs)"
| "broadcast_rev (x # xs) (y # ys) =
     (if x = y \<or> y = 1 then map_option ((#) x) (broadcast_rev xs ys)
      else if x = 1 then map_option ((#) y) (broadcast_rev xs ys)
      else None)"

definition broadcast2 :: "nat list \<Rightarrow> nat list \<Rightarrow> nat list option" where
  "broadcast2 s t = map_option rev (broadcast_rev (rev s) (rev t))"

fun broadcast_from :: "nat list \<Rightarrow> nat list list \<Rightarrow> nat list option" where
  "broadcast_from acc [] = Some acc"
| "broadcast_from acc (s # ss) =
     (case broadcast2 acc s of None \<Rightarrow> None | Some r \<Rightarrow> broadcast_from r ss)"

definition broadcast_shapes :: "nat list list \<Rightarrow> nat list option" where
  "broadcast_shapes ss = broadcast_from [] ss"

text \<open>
  The specification's condition on a pair of shapes, stated on its own: aligned at
  the last dimension, the two sizes of every dimension both shapes have are equal or
  one of them is 1.
\<close>

definition compatible :: "nat list \<Rightarrow> nat list \<Rightarrow> bool" where
  "compatible s t = list_all (\<lambda>(x, y). x = y \<or> x = 1 \<or> y = 1) (zip (rev s) (rev t))"

text \<open>
  Modelled from the spec: the enumeration of "every coordinate in the broadcast
  shape in a fixed, deterministic (row-major / lexicographic) order", and the
  selection of "the corresponding element from each argument (using index 0 along
  any dimension where that argument's size was 1)".  An argument of lower rank is
  aligned at the last dimension; the offset of a coordinate in the row-major
  element list is computed by Horner's rule.
\<close>

fun coords :: "nat list \<Rightarrow> nat list list" where
  "coords [] = [[]]"
| "coords (n # ns) = concat (map (\<lambda>i. map ((#) i) (coords ns)) [0..<n])"

definition element_at :: "'a ndarray \<Rightarrow> nat list \<Rightarrow> 'a" where
  "element_at a c =
     (let idx = drop (length c - length (shape a)) c;
          idx' = map (\<lambda>(d, i). if d = 1 then 0 else i) (zip (shape a) idx);
          off = foldl (\<lambda>acc (d, i). acc * d + i) 0 (zip (shape a) idx')
      in elems a ! off)"

text \<open>
  Modelled from the spec: the element types of the array library, which the
  sources do not contain.  \<open>type_of\<close> gives the type tag of a computed result and
  \<open>coerce\<close> stores a value in an array of the element type a tag names.
\<close>

record 'b array_lib =
  type_of :: "'b \<Rightarrow> string"
  coerce :: "string \<Rightarrow> 'b \<Rightarrow> 'b"

text \<open>
  Modelled from the spec: "If a type-tag was supplied at construction,
  coerce/store the output using that element type; otherwise infer the output
  element type from the type of the first computed result."  The adapter passes
  the empty string when no tag was supplied.
\<close>

fun store :: "'b array_lib \<Rightarrow> string \<Rightarrow> 'b list \<Rightarrow> 'b list" where
  "store lib otypes [] = []"
| "store lib otypes (r # rs) =
     (let t = (if otypes = [] then type_of lib r else otypes)
      in map (coerce lib t) (r # rs))"

text \<open>
  Modelled from the spec: \<^verbatim>\<open>arraymap\<close>, a function of the \<^verbatim>\<open>cephes\<close> extension module
  that is not among the sources; steps 1 to 4 of the call contract.  Convert every
  argument to an array view; compute the broadcast shape, failing with
  \<^verbatim>\<open>BroadcastError\<close>; invoke the function at every coordinate in row-major order on
  the selected elements; assemble the results in that order into an array of the
  broadcast shape.
\<close>

definition arraymap ::
  "'b array_lib \<Rightarrow> ('a, 'b) pyobject \<Rightarrow> 'a pyarg list \<Rightarrow> string \<Rightarrow> exn + 'b ndarray" where
  "arraymap lib f args otypes =
     (case those (map asarray args) of
        None \<Rightarrow> Inl ConversionError
      | Some arrs \<Rightarrow>
         (case broadcast_shapes (map shape arrs) of
            None \<Rightarrow> Inl BroadcastError
          | Some bshape \<Rightarrow>
              Inr \<lparr>shape = bshape,
                   elems = store lib otypes
                     (map (\<lambda>c. call f (map (\<lambda>a. element_at a c) arrs)) (coords bshape))\<rparr>))"

text \<open>
  Modelled from the spec: \<^verbatim>\<open>scipy_base.squeeze\<close> as the adapter uses it, step 5 of the
  call contract.  "If the broadcast shape is rank-0 (all inputs were scalars),
  return a single scalar value rather than a rank-0 array."
\<close>

datatype 'b pyresult = ScalarValue 'b | ArrayValue "'b ndarray"

definition squeeze :: "'b ndarray \<Rightarrow> 'b pyresult" where
  "squeeze a = (case (shape a, elems a) of ([], [x]) \<Rightarrow> ScalarValue x | _ \<Rightarrow> ArrayValue a)"

text \<open>
  \<^verbatim>\<open>
  def __call__(self,*args):
      return squeeze(arraymap(self.thefunc,args,self.otypes))
  \<close>
  An exception of \<^verbatim>\<open>arraymap\<close> propagates.
\<close>

definition general_function_call ::
  "'b array_lib \<Rightarrow> ('a, 'b) general_function \<Rightarrow> 'a pyarg list \<Rightarrow> exn + 'b pyresult" where
  "general_function_call lib self args =
     (case arraymap lib (self_thefunc self) args (self_otypes self) of
        Inl e \<Rightarrow> Inl e
      | Inr a \<Rightarrow> Inr (squeeze a))"

text \<open>
  The function of the class's docstring:
  \<^verbatim>\<open>
  def myfunc(a,b):
      if a > b:
          return a-b
      else
          return a+b
  \<close>
\<close>

fun myfunc :: "int list \<Rightarrow> int" where
  "myfunc [a, b] = (if a > b then a - b else a + b)"

text \<open>
  A reversed shape fits a reversed broadcast shape when each of its sizes is the
  size of the broadcast shape at that dimension, or 1.  This is what the broadcast
  shape is to every argument's shape; the proofs below use it.
\<close>

fun fits :: "nat list \<Rightarrow> nat list \<Rightarrow> bool" where
  "fits [] r = True"
| "fits (x # xs) [] = False"
| "fits (x # xs) (z # r) = ((x = z \<or> x = 1) \<and> fits xs r)"

section \<open>Construction of the adapter\<close>

lemma init_not_callable:
  "\<not> callable pyfunc \<or> is_ClassType pyfunc \<Longrightarrow>
   general_function_init pyfunc otypes doc =
     Inl (TypeError ''Object is not a callable Python object.'')"
  by auto

lemma init_bad_otypes:
  "callable pyfunc \<Longrightarrow> \<not> is_ClassType pyfunc \<Longrightarrow>
   general_function_init pyfunc PyOther doc =
     Inl (ValueError ''Output types must be a string.'')"
  by simp

lemma init_default_doc:
  "callable pyfunc \<Longrightarrow> \<not> is_ClassType pyfunc \<Longrightarrow> otypes \<noteq> PyOther \<Longrightarrow>
   \<exists>gf. general_function_init pyfunc otypes PyNone = Inr gf \<and>
        self_doc gf = obj_doc pyfunc \<and> self_thefunc gf = pyfunc"
  by (cases otypes) simp_all

text \<open>
  Claim C8.  Constructing the adapter fails with the \<^verbatim>\<open>TypeError\<close> of the source
  (a \<^verbatim>\<open>ConfigurationError\<close> of the specification) when the object is not callable,
  also when it is a class object; it fails with a \<^verbatim>\<open>ConfigurationError\<close> whenever
  the output-type tag is supplied and is not a string, which for a callable object
  is the \<^verbatim>\<open>ValueError\<close> of the source; and when the construction succeeds with no
  documentation string given, the adapter's documentation is the wrapped object's.
\<close>

theorem general_function_init_contract:
  "(\<not> callable pyfunc \<or> is_ClassType pyfunc \<longrightarrow>
      general_function_init pyfunc otypes doc =
        Inl (TypeError ''Object is not a callable Python object.'') \<and>
      ConfigurationError (TypeError ''Object is not a callable Python object.''))
   \<and> (\<exists>e. general_function_init pyfunc PyOther doc = Inl e \<and> ConfigurationError e)
   \<and> (callable pyfunc \<and> \<not> is_ClassType pyfunc \<longrightarrow>
      general_function_init pyfunc PyOther doc =
        Inl (ValueError ''Output types must be a string.''))
   \<and> (\<forall>gf. general_function_init pyfunc otypes PyNone = Inr gf \<longrightarrow>
      self_doc gf = obj_doc pyfunc)"
proof -
  have a: "\<exists>e. general_function_init pyfunc PyOther doc = Inl e \<and> ConfigurationError e"
    by simp
  have b: "\<forall>gf. general_function_init pyfunc otypes PyNone = Inr gf \<longrightarrow>
      self_doc gf = obj_doc pyfunc"
    by (cases otypes) (auto split: if_splits)
  from a b show ?thesis
    using init_not_callable [of pyfunc otypes doc] init_bad_otypes [of pyfunc doc]
    by simp
qed

theorem general_function_init_contract_witness:
  "general_function_init
       \<lparr>callable = True, is_ClassType = True, call = (\<lambda>xs::int list. 0::int),
        obj_doc = PyNone\<rparr> PyNone PyNone =
     Inl (TypeError ''Object is not a callable Python object.'')
   \<and> general_function_init
       \<lparr>callable = True, is_ClassType = False, call = (\<lambda>xs::int list. 0::int),
        obj_doc = PyStr ''doc of f''\<rparr> PyOther PyNone =
     Inl (ValueError ''Output types must be a string.'')
   \<and> (\<exists>gf. general_function_init
       \<lparr>callable = True, is_ClassType = False, call = (\<lambda>xs::int list. 0::int),
        obj_doc = PyStr ''doc of f''\<rparr> (PyStr ''d'') PyNone = Inr gf
       \<and> self_doc gf = PyStr ''doc of f'')"
  using general_function_init_contract
      [of "\<lparr>callable = True, is_ClassType = True, call = (\<lambda>xs::int list. 0::int),
        obj_doc = PyNone\<rparr>" PyNone PyNone]
    general_function_init_contract
      [of "\<lparr>callable = True, is_ClassType = False, call = (\<lambda>xs::int list. 0::int),
        obj_doc = PyStr ''doc of f''\<rparr>" "PyStr ''d''" PyNone]
  by simp

section \<open>The call of the adapter\<close>

lemma broadcast_rev_None_iff:
  "broadcast_rev xs ys = None \<longleftrightarrow>
     \<not> list_all (\<lambda>(x, y). x = y \<or> x = 1 \<or> y = 1) (zip xs ys)"
  by (induction xs ys rule: broadcast_rev.induct) auto

lemma broadcast2_None_iff: "broadcast2 s t = None \<longleftrightarrow> \<not> compatible s t"
  by (simp add: broadcast2_def compatible_def broadcast_rev_None_iff)

lemma broadcast2_Nil: "broadcast2 [] s = Some s"
  by (simp add: broadcast2_def)

lemma broadcast_shapes_pair: "broadcast_shapes [s, t] = broadcast2 s t"
  by (simp add: broadcast_shapes_def broadcast2_Nil split: option.splits)

lemma element_at_rank0: "element_at \<lparr>shape = [], elems = [x]\<rparr> c = x"
  by (simp add: element_at_def)

text \<open>
  The array a call assembles has the broadcast shape of the arguments and as many
  elements as that shape says; when a dimension of the shape is 0 it has none.
\<close>

lemma length_coords: "length (coords s) = prod_list s"
proof (induction s)
  case Nil
  show ?case by simp
next
  case (Cons n s)
  have "length (concat (map (\<lambda>i. map ((#) i) (coords s)) [0..<n])) = n * length (coords s)"
    by (induction n) (simp_all add: length_concat)
  with Cons show ?case by simp
qed

lemma length_store: "length (store lib t rs) = length rs"
  by (cases rs) (simp_all add: Let_def)

lemma arraymap_shape:
  assumes "arraymap lib f args t = Inr out"
  shows "\<exists>arrs. those (map asarray args) = Some arrs \<and>
           broadcast_shapes (map shape arrs) = Some (shape out) \<and> wf_array out"
  using assms
  by (auto simp: arraymap_def wf_array_def length_store length_coords split: option.splits)

lemma arraymap_empty:
  assumes "arraymap lib f args t = Inr out" and "0 \<in> set (shape out)"
  shows "elems out = []"
proof -
  from arraymap_shape [OF assms(1)] have "length (elems out) = prod_list (shape out)"
    by (auto simp: wf_array_def)
  moreover from assms(2) have "prod_list (shape out) = 0"
    by (simp add: prod_list_zero_iff)
  ultimately show ?thesis by simp
qed

lemma arraymap_scalars:
  assumes "coerce lib (type_of lib (call f [a, b])) (call f [a, b]) = call f [a, b]"
  shows "arraymap lib f [Elem a, Elem b] [] = Inr \<lparr>shape = [], elems = [call f [a, b]]\<rparr>"
  using assms
  by (simp add: arraymap_def broadcast_shapes_pair broadcast2_def element_at_rank0)

text \<open>
  Claim C1.  For scalar arguments \<open>a\<close> and \<open>b\<close> and a function \<open>Fn\<close> of two
  arguments (any callable object that is not a class; \<open>call pyfunc [a, b]\<close> is
  \<open>Fn(a, b)\<close>), the adapter \<^verbatim>\<open>general_function(Fn)\<close> called on \<open>(a, b)\<close> returns
  \<open>Fn(a, b)\<close> itself, as a scalar value and not as an array.  The array library is
  assumed to store a value unchanged in an array of the value's own element type.
\<close>

theorem general_function_scalars:
  assumes "callable pyfunc" and "\<not> is_ClassType pyfunc"
    and "coerce lib (type_of lib (call pyfunc [a, b])) (call pyfunc [a, b]) = call pyfunc [a, b]"
  shows "\<exists>gf. general_function_init pyfunc PyNone PyNone = Inr gf \<and>
     general_function_call lib gf [Elem a, Elem b] = Inr (ScalarValue (call pyfunc [a, b]))"
  using assms
  by (simp add: general_function_call_def arraymap_scalars squeeze_def)

theorem general_function_scalars_witness:
  "\<exists>gf. general_function_init
          \<lparr>callable = True, is_ClassType = False, call = myfunc, obj_doc = PyNone\<rparr>
          PyNone PyNone = Inr gf \<and>
     general_function_call \<lparr>type_of = (\<lambda>v. ''l''), coerce = (\<lambda>t v. v)\<rparr> gf [Elem 5, Elem 2] =
       Inr (ScalarValue 3)"
  using general_function_scalars
    [of "\<lparr>callable = True, is_ClassType = False, call = myfunc, obj_doc = PyNone\<rparr>"
        "\<lparr>type_of = (\<lambda>v. ''l''), coerce = (\<lambda>t v. v)\<rparr>" 5 2]
  by simp

lemma coords4: "coords [4] = [[0], [1], [2], [3]]"
  by (simp add: upt_rec)

text \<open>
  Claim C2.  The adapter of \<^verbatim>\<open>myfunc\<close> (\<open>a - b\<close> if \<open>a > b\<close>, else \<open>a + b\<close>) called on
  \<open>([1,2,3,4], 2)\<close> returns the array \<open>[3,4,1,2]\<close> of shape \<open>(4,)\<close>: the coordinates
  of the broadcast shape are enumerated in row-major order, and the scalar 2 is the
  element selected at each of the four.  The array library is assumed to give all
  Python ints one element type and to store a value unchanged in an array of its
  own element type.
\<close>

theorem general_function_myfunc:
  assumes "\<And>v w :: int. type_of lib v = type_of lib w"
    and "\<And>v :: int. coerce lib (type_of lib v) v = v"
  shows "(\<exists>gf. general_function_init
           \<lparr>callable = True, is_ClassType = False, call = myfunc, obj_doc = d\<rparr>
           PyNone PyNone = Inr gf
        \<and> general_function_call lib gf [Seq [Elem 1, Elem 2, Elem 3, Elem 4], Elem 2] =
            Inr (ArrayValue \<lparr>shape = [4], elems = [3, 4, 1, 2]\<rparr>))
      \<and> broadcast_shapes [[4], []] = Some [4]
      \<and> coords [4] = [[0], [1], [2], [3]]
      \<and> map (element_at \<lparr>shape = [], elems = [2::int]\<rparr>) (coords [4]) = [2, 2, 2, 2]"
proof -
  have c: "coerce lib (type_of lib (3::int)) v = v" for v
    using assms(1) [of 3 v] assms(2) [of v] by simp
  have "\<exists>gf. general_function_init
           \<lparr>callable = True, is_ClassType = False, call = myfunc, obj_doc = d\<rparr>
           PyNone PyNone = Inr gf
        \<and> general_function_call lib gf [Seq [Elem 1, Elem 2, Elem 3, Elem 4], Elem 2] =
            Inr (ArrayValue \<lparr>shape = [4], elems = [3, 4, 1, 2]\<rparr>)"
    by (simp add: general_function_call_def arraymap_def broadcast_shapes_pair broadcast2_def
        coords4 element_at_def squeeze_def c)
  moreover have "broadcast_shapes [[4], []] = Some [4]"
    by (simp add: broadcast_shapes_pair broadcast2_def)
  moreover have "map (element_at \<lparr>shape = [], elems = [2::int]\<rparr>) (coords [4]) = [2, 2, 2, 2]"
    unfolding coords4 by (simp add: element_at_rank0)
  ultimately show ?thesis
    using coords4 by blast
qed

theorem general_function_myfunc_witness:
  "\<exists>gf. general_function_init
           \<lparr>callable = True, is_ClassType = False, call = myfunc, obj_doc = PyNone\<rparr>
           PyNone PyNone = Inr gf
        \<and> general_function_call \<lparr>type_of = (\<lambda>v. ''l''), coerce = (\<lambda>t v. v)\<rparr> gf
            [Seq [Elem 1, Elem 2, Elem 3, Elem 4], Elem 2] =
            Inr (ArrayValue \<lparr>shape = [4], elems = [3, 4, 1, 2]\<rparr>)"
  using general_function_myfunc
    [of "\<lparr>type_of = (\<lambda>v. ''l''), coerce = (\<lambda>t v. v)\<rparr>" PyNone]
  by simp

lemma fits_refl: "fits xs xs"
  by (induction xs) simp_all

lemma broadcast_rev_fits:
  "broadcast_rev xs ys = Some r \<Longrightarrow> fits xs r \<and> fits ys r"
proof (induction xs ys arbitrary: r rule: broadcast_rev.induct)
  case (1 ys)
  then show ?case by (simp add: fits_refl)
next
  case (2 x xs)
  then show ?case by (auto simp: fits_refl)
next
  case (3 x xs y ys)
  then show ?case by (auto split: if_splits)
qed

lemma fits_trans: "fits xs r \<Longrightarrow> fits r r' \<Longrightarrow> fits xs r'"
proof (induction xs r arbitrary: r' rule: fits.induct)
  case (1 r)
  then show ?case by simp
next
  case (2 x xs)
  then show ?case by simp
next
  case (3 x xs z r)
  then show ?case by (cases r') auto
qed

lemma fits_compatible:
  "fits xs r \<Longrightarrow> fits ys r \<Longrightarrow>
   list_all (\<lambda>(x, y). x = y \<or> x = 1 \<or> y = 1) (zip xs ys)"
proof (induction xs r arbitrary: ys rule: fits.induct)
  case (1 r)
  then show ?case by simp
next
  case (2 x xs)
  then show ?case by simp
next
  case (3 x xs z r)
  then show ?case by (cases ys) auto
qed

lemma broadcast_from_fits:
  "broadcast_from acc ss = Some r \<Longrightarrow>
   fits (rev acc) (rev r) \<and> (\<forall>s \<in> set ss. fits (rev s) (rev r))"
proof (induction ss arbitrary: acc)
  case Nil
  then show ?case by (simp add: fits_refl)
next
  case (Cons s ss)
  from Cons.prems obtain q
    where q: "broadcast2 acc s = Some q" and r: "broadcast_from q ss = Some r"
    by (auto split: option.splits)
  from q have "fits (rev acc) (rev q) \<and> fits (rev s) (rev q)"
    by (auto simp: broadcast2_def dest: broadcast_rev_fits)
  moreover from Cons.IH [OF r]
  have "fits (rev q) (rev r)" and "\<forall>s \<in> set ss. fits (rev s) (rev r)"
    by simp_all
  ultimately show ?case by (auto intro: fits_trans)
qed

lemma broadcast_shapes_compatible:
  "broadcast_shapes ss = Some r \<Longrightarrow> s \<in> set ss \<Longrightarrow> t \<in> set ss \<Longrightarrow> compatible s t"
  unfolding broadcast_shapes_def compatible_def
  by (blast dest: broadcast_from_fits intro: fits_compatible)

text \<open>
  Claim C3.  When two of the argument arrays of a call have shapes that are
  incompatible under the broadcasting rules, as \<open>(3,)\<close> and \<open>(4,)\<close> are, the call of
  any adapter, whatever function it wraps and whatever its output type, fails with
  \<^verbatim>\<open>BroadcastError\<close>: the result is the exception, so no array and no partial result
  is returned.
\<close>

theorem general_function_incompatible:
  assumes "those (map asarray args) = Some arrs"
    and "a \<in> set arrs" and "b \<in> set arrs"
    and "\<not> compatible (shape a) (shape b)"
  shows "general_function_call lib gf args = Inl BroadcastError"
proof -
  have "broadcast_shapes (map shape arrs) = None"
  proof (cases "broadcast_shapes (map shape arrs)")
    case None
    then show ?thesis .
  next
    case (Some r)
    from broadcast_shapes_compatible [OF Some, of "shape a" "shape b"] assms(2,3,4)
    show ?thesis by simp
  qed
  with assms(1) show ?thesis
    by (simp add: general_function_call_def arraymap_def)
qed

theorem general_function_incompatible_witness:
  "\<not> compatible [3] [4]
   \<and> general_function_call \<lparr>type_of = (\<lambda>v. ''l''), coerce = (\<lambda>t v. v)\<rparr>
       \<lparr>self_thefunc = \<lparr>callable = True, is_ClassType = False, call = myfunc, obj_doc = PyNone\<rparr>,
        self_doc = PyNone, self_otypes = ''''\<rparr>
       [Seq [Elem 1, Elem 2, Elem 3], Seq [Elem 1, Elem 2, Elem 3, Elem 4]] =
     Inl BroadcastError"
  using general_function_incompatible
    [of "[Seq [Elem (1::int), Elem 2, Elem 3], Seq [Elem 1, Elem 2, Elem 3, Elem 4]]"
        "[\<lparr>shape = [3], elems = [1, 2, 3]\<rparr>, \<lparr>shape = [4], elems = [1, 2, 3, 4]\<rparr>]"
        "\<lparr>shape = [3], elems = [1, 2, 3]\<rparr>" "\<lparr>shape = [4], elems = [1, 2, 3, 4]\<rparr>"
        "\<lparr>type_of = (\<lambda>v. ''l''), coerce = (\<lambda>t v. v)\<rparr>"
        "\<lparr>self_thefunc = \<lparr>callable = True, is_ClassType = False, call = myfunc,
            obj_doc = PyNone\<rparr>, self_doc = PyNone, self_otypes = ''''\<rparr>"]
  by (simp add: compatible_def)

section \<open>The derivative wrappers: the recurrence\<close>

text \<open>
  The defining equations are recursive; they are applied one step at a time.
\<close>

declare jvp.simps [simp del] yvp.simps [simp del] kvp.simps [simp del]
  ivp.simps [simp del] h1vp.simps [simp del] h2vp.simps [simp del]

lemma jvp_zero:
  "0 \<le> maxint \<Longrightarrow> jvp maxint jv (Suc d) v z (PyInt 0) = Inr (jv v z)"
  by (simp add: jvp.simps)

lemma jvp_unfold:
  "1 \<le> n \<Longrightarrow> n \<le> maxint \<Longrightarrow>
   jvp maxint jv (Suc d) v z (PyInt n) =
     (case jvp maxint jv d (dsub v (double_of_int 1)) z (PyInt (n - 1)) of
        Inl e \<Rightarrow> Inl e
      | Inr a \<Rightarrow>
         (case jvp maxint jv d (dadd v (double_of_int 1)) z (PyInt (n - 1)) of
            Inl e \<Rightarrow> Inl e
          | Inr b \<Rightarrow> Inr ((a - b) / 2)))"
  by (simp add: jvp.simps)

lemma jvp_returns:
  "0 \<le> n \<Longrightarrow> n \<le> maxint \<Longrightarrow> n \<le> int d \<Longrightarrow>
   \<exists>a. jvp maxint jv (Suc d) v z (PyInt n) = Inr a"
proof (induction d arbitrary: n v)
  case 0
  then have "n = 0" by simp
  with 0 show ?case by (simp add: jvp_zero)
next
  case (Suc d)
  show ?case
  proof (cases "n = 0")
    case True
    with Suc.prems show ?thesis by (simp add: jvp_zero)
  next
    case False
    with Suc.prems have n: "1 \<le> n" "0 \<le> n - 1" "n - 1 \<le> maxint" "n - 1 \<le> int d"
      by simp_all
    from Suc.IH [OF n(2,3,4)] obtain a
      where a: "jvp maxint jv (Suc d) (dsub v (double_of_int 1)) z (PyInt (n - 1)) = Inr a"
      by blast
    from Suc.IH [OF n(2,3,4)] obtain b
      where b: "jvp maxint jv (Suc d) (dadd v (double_of_int 1)) z (PyInt (n - 1)) = Inr b"
      by blast
    have "jvp maxint jv (Suc (Suc d)) v z (PyInt n) = Inr ((a - b) / 2)"
      using n(1) Suc.prems(2) by (subst jvp_unfold) (simp_all add: a b)
    then show ?thesis ..
  qed
qed

lemma jvp_step:
  assumes "1 \<le> n" and "n \<le> maxint" and "n \<le> int d"
  shows "\<exists>a b. jvp maxint jv d (dsub v (double_of_int 1)) z (PyInt (n - 1)) = Inr a \<and>
               jvp maxint jv d (dadd v (double_of_int 1)) z (PyInt (n - 1)) = Inr b \<and>
               jvp maxint jv (Suc d) v z (PyInt n) = Inr ((a - b) / 2)"
proof -
  from assms(1,3) obtain d' where d: "d = Suc d'"
    by (cases d) simp_all
  from assms d have n: "0 \<le> n - 1" "n - 1 \<le> maxint" "n - 1 \<le> int d'"
    by simp_all
  obtain a
    where a: "jvp maxint jv d (dsub v (double_of_int 1)) z (PyInt (n - 1)) = Inr a"
    using jvp_returns [OF n, of jv "dsub v (double_of_int 1)" z] unfolding d by blast
  obtain b
    where b: "jvp maxint jv d (dadd v (double_of_int 1)) z (PyInt (n - 1)) = Inr b"
    using jvp_returns [OF n, of jv "dadd v (double_of_int 1)" z] unfolding d by blast
  have "jvp maxint jv (Suc d) v z (PyInt n) = Inr ((a - b) / 2)"
    using assms(1,2) by (subst jvp_unfold) (simp_all add: a b)
  with a b show ?thesis by blast
qed

lemma jvp_one:
  "1 \<le> maxint \<Longrightarrow>
   jvp maxint jv (Suc (Suc d)) v z (PyInt 1) =
     Inr ((jv (dsub v (double_of_int 1)) z - jv (dadd v (double_of_int 1)) z) / 2)"
  by (subst jvp_unfold) (simp_all add: jvp_zero)

lemma jvp_two:
  "2 \<le> maxint \<Longrightarrow>
   jvp maxint jv (Suc (Suc (Suc d))) v z (PyInt 2) =
     Inr (((jv (dsub (dsub v (double_of_int 1)) (double_of_int 1)) z
            - jv (dadd (dsub v (double_of_int 1)) (double_of_int 1)) z) / 2
          - (jv (dsub (dadd v (double_of_int 1)) (double_of_int 1)) z
            - jv (dadd (dadd v (double_of_int 1)) (double_of_int 1)) z) / 2) / 2)"
  by (subst jvp_unfold) (simp_all add: jvp_one)

lemma jvp_rejects:
  "jvp maxint jv (Suc d) v z (PyFloat r) =
     Inl (ValueError ''n must be a non-negative integer.'')"
  "n < 0 \<Longrightarrow> jvp maxint jv (Suc d) v z (PyInt n) =
     Inl (ValueError ''n must be a non-negative integer.'')"
  "maxint < n \<Longrightarrow> jvp maxint jv (Suc d) v z (PyInt n) =
     Inl (ValueError ''n must be a non-negative integer.'')"
  by (simp_all add: jvp.simps)

lemma jvp_too_deep:
  "0 \<le> n \<Longrightarrow> n \<le> maxint \<Longrightarrow> int d \<le> n \<Longrightarrow>
   jvp maxint jv d v z (PyInt n) = Inl (RuntimeError ''maximum recursion depth exceeded'')"
proof (induction d arbitrary: n v)
  case 0
  show ?case by (simp add: jvp.simps)
next
  case (Suc d)
  then have n: "1 \<le> n" "0 \<le> n - 1" "n - 1 \<le> maxint" "int d \<le> n - 1"
    by simp_all
  show ?case
    using n(1) Suc.prems(2)
    by (subst jvp_unfold) (simp_all add: Suc.IH [OF n(2,3,4)])
qed

lemma yvp_zero:
  "0 \<le> maxint \<Longrightarrow> yvp maxint yv (Suc d) v z (PyInt 0) = Inr (yv v z)"
  by (simp add: yvp.simps)

lemma yvp_unfold:
  "1 \<le> n \<Longrightarrow> n \<le> maxint \<Longrightarrow>
   yvp maxint yv (Suc d) v z (PyInt n) =
     (case yvp maxint yv d (dsub v (double_of_int 1)) z (PyInt (n - 1)) of
        Inl e \<Rightarrow> Inl e
      | Inr a \<Rightarrow>
         (case yvp maxint yv d (dadd v (double_of_int 1)) z (PyInt (n - 1)) of
            Inl e \<Rightarrow> Inl e
          | Inr b \<Rightarrow> Inr ((a - b) / 2)))"
  by (simp add: yvp.simps)

lemma yvp_returns:
  "0 \<le> n \<Longrightarrow> n \<le> maxint \<Longrightarrow> n \<le> int d \<Longrightarrow>
   \<exists>a. yvp maxint yv (Suc d) v z (PyInt n) = Inr a"
proof (induction d arbitrary: n v)
  case 0
  then have "n = 0" by simp
  with 0 show ?case by (simp add: yvp_zero)
next
  case (Suc d)
  show ?case
  proof (cases "n = 0")
    case True
    with Suc.prems show ?thesis by (simp add: yvp_zero)
  next
    case False
    with Suc.prems have n: "1 \<le> n" "0 \<le> n - 1" "n - 1 \<le> maxint" "n - 1 \<le> int d"
      by simp_all
    from Suc.IH [OF n(2,3,4)] obtain a
      where a: "yvp maxint yv (Suc d) (dsub v (double_of_int 1)) z (PyInt (n - 1)) = Inr a"
      by blast
    from Suc.IH [OF n(2,3,4)] obtain b
      where b: "yvp maxint yv (Suc d) (dadd v (double_of_int 1)) z (PyInt (n - 1)) = Inr b"
      by blast
    have "yvp maxint yv (Suc (Suc d)) v z (PyInt n) = Inr ((a - b) / 2)"
      using n(1) Suc.prems(2) by (subst yvp_unfold) (simp_all add: a b)
    then show ?thesis ..
  qed
qed

lemma yvp_step:
  assumes "1 \<le> n" and "n \<le> maxint" and "n \<le> int d"
  shows "\<exists>a b. yvp maxint yv d (dsub v (double_of_int 1)) z (PyInt (n - 1)) = Inr a \<and>
               yvp maxint yv d (dadd v (double_of_int 1)) z (PyInt (n - 1)) = Inr b \<and>
               yvp maxint yv (Suc d) v z (PyInt n) = Inr ((a - b) / 2)"
proof -
  from assms(1,3) obtain d' where d: "d = Suc d'"
    by (cases d) simp_all
  from assms d have n: "0 \<le> n - 1" "n - 1 \<le> maxint" "n - 1 \<le> int d'"
    by simp_all
  obtain a
    where a: "yvp maxint yv d (dsub v (double_of_int 1)) z (PyInt (n - 1)) = Inr a"
    using yvp_returns [OF n, of yv "dsub v (double_of_int 1)" z] unfolding d by blast
  obtain b
    where b: "yvp maxint yv d (dadd v (double_of_int 1)) z (PyInt (n - 1)) = Inr b"
    using yvp_returns [OF n, of yv "dadd v (double_of_int 1)" z] unfolding d by blast
  have "yvp maxint yv (Suc d) v z (PyInt n) = Inr ((a - b) / 2)"
    using assms(1,2) by (subst yvp_unfold) (simp_all add: a b)
  with a b show ?thesis by blast
qed

lemma yvp_one:
  "1 \<le> maxint \<Longrightarrow>
   yvp maxint yv (Suc (Suc d)) v z (PyInt 1) =
     Inr ((yv (dsub v (double_of_int 1)) z - yv (dadd v (double_of_int 1)) z) / 2)"
  by (subst yvp_unfold) (simp_all add: yvp_zero)

lemma yvp_two:
  "2 \<le> maxint \<Longrightarrow>
   yvp maxint yv (Suc (Suc (Suc d))) v z (PyInt 2) =
     Inr (((yv (dsub (dsub v (double_of_int 1)) (double_of_int 1)) z
            - yv (dadd (dsub v (double_of_int 1)) (double_of_int 1)) z) / 2
          - (yv (dsub (dadd v (double_of_int 1)) (double_of_int 1)) z
            - yv (dadd (dadd v (double_of_int 1)) (double_of_int 1)) z) / 2) / 2)"
  by (subst yvp_unfold) (simp_all add: yvp_one)

lemma yvp_rejects:
  "yvp maxint yv (Suc d) v z (PyFloat r) =
     Inl (ValueError ''n must be a non-negative integer.'')"
  "n < 0 \<Longrightarrow> yvp maxint yv (Suc d) v z (PyInt n) =
     Inl (ValueError ''n must be a non-negative integer.'')"
  "maxint < n \<Longrightarrow> yvp maxint yv (Suc d) v z (PyInt n) =
     Inl (ValueError ''n must be a non-negative integer.'')"
  by (simp_all add: yvp.simps)

lemma yvp_too_deep:
  "0 \<le> n \<Longrightarrow> n \<le> maxint \<Longrightarrow> int d \<le> n \<Longrightarrow>
   yvp maxint yv d v z (PyInt n) = Inl (RuntimeError ''maximum recursion depth exceeded'')"
proof (induction d arbitrary: n v)
  case 0
  show ?case by (simp add: yvp.simps)
next
  case (Suc d)
  then have n: "1 \<le> n" "0 \<le> n - 1" "n - 1 \<le> maxint" "int d \<le> n - 1"
    by simp_all
  show ?case
    using n(1) Suc.prems(2)
    by (subst yvp_unfold) (simp_all add: Suc.IH [OF n(2,3,4)])
qed

lemma kvp_zero:
  "0 \<le> maxint \<Longrightarrow> kvp maxint kv (Suc d) v z (PyInt 0) = Inr (kv v z)"
  by (simp add: kvp.simps)

lemma kvp_unfold:
  "1 \<le> n \<Longrightarrow> n \<le> maxint \<Longrightarrow>
   kvp maxint kv (Suc d) v z (PyInt n) =
     (case kvp maxint kv d (dsub v (double_of_int 1)) z (PyInt (n - 1)) of
        Inl e \<Rightarrow> Inl e
      | Inr a \<Rightarrow>
         (case kvp maxint kv d (dadd v (double_of_int 1)) z (PyInt (n - 1)) of
            Inl e \<Rightarrow> Inl e
          | Inr b \<Rightarrow> Inr ((a - b) / 2)))"
  by (simp add: kvp.simps)

lemma kvp_returns:
  "0 \<le> n \<Longrightarrow> n \<le> maxint \<Longrightarrow> n \<le> int d \<Longrightarrow>
   \<exists>a. kvp maxint kv (Suc d) v z (PyInt n) = Inr a"
proof (induction d arbitrary: n v)
  case 0
  then have "n = 0" by simp
  with 0 show ?case by (simp add: kvp_zero)
next
  case (Suc d)
  show ?case
  proof (cases "n = 0")
    case True
    with Suc.prems show ?thesis by (simp add: kvp_zero)
  next
    case False
    with Suc.prems have n: "1 \<le> n" "0 \<le> n - 1" "n - 1 \<le> maxint" "n - 1 \<le> int d"
      by simp_all
    from Suc.IH [OF n(2,3,4)] obtain a
      where a: "kvp maxint kv (Suc d) (dsub v (double_of_int 1)) z (PyInt (n - 1)) = Inr a"
      by blast
    from Suc.IH [OF n(2,3,4)] obtain b
      where b: "kvp maxint kv (Suc d) (dadd v (double_of_int 1)) z (PyInt (n - 1)) = Inr b"
      by blast
    have "kvp maxint kv (Suc (Suc d)) v z (PyInt n) = Inr ((a - b) / 2)"
      using n(1) Suc.prems(2) by (subst kvp_unfold) (simp_all add: a b)
    then show ?thesis ..
  qed
qed

lemma kvp_step:
  assumes "1 \<le> n" and "n \<le> maxint" and "n \<le> int d"
  shows "\<exists>a b. kvp maxint kv d (dsub v (double_of_int 1)) z (PyInt (n - 1)) = Inr a \<and>
               kvp maxint kv d (dadd v (double_of_int 1)) z (PyInt (n - 1)) = Inr b \<and>
               kvp maxint kv (Suc d) v z (PyInt n) = Inr ((a - b) / 2)"
proof -
  from assms(1,3) obtain d' where d: "d = Suc d'"
    by (cases d) simp_all
  from assms d have n: "0 \<le> n - 1" "n - 1 \<le> maxint" "n - 1 \<le> int d'"
    by simp_all
  obtain a
    where a: "kvp maxint kv d (dsub v (double_of_int 1)) z (PyInt (n - 1)) = Inr a"
    using kvp_returns [OF n, of kv "dsub v (double_of_int 1)" z] unfolding d by blast
  obtain b
    where b: "kvp maxint kv d (dadd v (double_of_int 1)) z (PyInt (n - 1)) = Inr b"
    using kvp_returns [OF n, of kv "dadd v (double_of_int 1)" z] unfolding d by blast
  have "kvp maxint kv (Suc d) v z (PyInt n) = Inr ((a - b) / 2)"
    using assms(1,2) by (subst kvp_unfold) (simp_all add: a b)
  with a b show ?thesis by blast
qed

lemma kvp_one:
  "1 \<le> maxint \<Longrightarrow>
   kvp maxint kv (Suc (Suc d)) v z (PyInt 1) =
     Inr ((kv (dsub v (double_of_int 1)) z - kv (dadd v (double_of_int 1)) z) / 2)"
  by (subst kvp_unfold) (simp_all add: kvp_zero)

lemma kvp_two:
  "2 \<le> maxint \<Longrightarrow>
   kvp maxint kv (Suc (Suc (Suc d))) v z (PyInt 2) =
     Inr (((kv (dsub (dsub v (double_of_int 1)) (double_of_int 1)) z
            - kv (dadd (dsub v (double_of_int 1)) (double_of_int 1)) z) / 2
          - (kv (dsub (dadd v (double_of_int 1)) (double_of_int 1)) z
            - kv (dadd (dadd v (double_of_int 1)) (double_of_int 1)) z) / 2) / 2)"
  by (subst kvp_unfold) (simp_all add: kvp_one)

lemma kvp_rejects:
  "kvp maxint kv (Suc d) v z (PyFloat r) =
     Inl (ValueError ''n must be a non-negative integer.'')"
  "n < 0 \<Longrightarrow> kvp maxint kv (Suc d) v z (PyInt n) =
     Inl (ValueError ''n must be a non-negative integer.'')"
  "maxint < n \<Longrightarrow> kvp maxint kv (Suc d) v z (PyInt n) =
     Inl (ValueError ''n must be a non-negative integer.'')"
  by (simp_all add: kvp.simps)

lemma kvp_too_deep:
  "0 \<le> n \<Longrightarrow> n \<le> maxint \<Longrightarrow> int d \<le> n \<Longrightarrow>
   kvp maxint kv d v z (PyInt n) = Inl (RuntimeError ''maximum recursion depth exceeded'')"
proof (induction d arbitrary: n v)
  case 0
  show ?case by (simp add: kvp.simps)
next
  case (Suc d)
  then have n: "1 \<le> n" "0 \<le> n - 1" "n - 1 \<le> maxint" "int d \<le> n - 1"
    by simp_all
  show ?case
    using n(1) Suc.prems(2)
    by (subst kvp_unfold) (simp_all add: Suc.IH [OF n(2,3,4)])
qed

lemma ivp_zero:
  "0 \<le> maxint \<Longrightarrow> ivp maxint iv (Suc d) v z (PyInt 0) = Inr (iv v z)"
  by (simp add: ivp.simps)

lemma ivp_unfold:
  "1 \<le> n \<Longrightarrow> n \<le> maxint \<Longrightarrow>
   ivp maxint iv (Suc d) v z (PyInt n) =
     (case ivp maxint iv d (dsub v (double_of_int 1)) z (PyInt (n - 1)) of
        Inl e \<Rightarrow> Inl e
      | Inr a \<Rightarrow>
         (case ivp maxint iv d (dadd v (double_of_int 1)) z (PyInt (n - 1)) of
            Inl e \<Rightarrow> Inl e
          | Inr b \<Rightarrow> Inr ((a - b) / 2)))"
  by (simp add: ivp.simps)

lemma ivp_returns:
  "0 \<le> n \<Longrightarrow> n \<le> maxint \<Longrightarrow> n \<le> int d \<Longrightarrow>
   \<exists>a. ivp maxint iv (Suc d) v z (PyInt n) = Inr a"
proof (induction d arbitrary: n v)
  case 0
  then have "n = 0" by simp
  with 0 show ?case by (simp add: ivp_zero)
next
  case (Suc d)
  show ?case
  proof (cases "n = 0")
    case True
    with Suc.prems show ?thesis by (simp add: ivp_zero)
  next
    case False
    with Suc.prems have n: "1 \<le> n" "0 \<le> n - 1" "n - 1 \<le> maxint" "n - 1 \<le> int d"
      by simp_all
    from Suc.IH [OF n(2,3,4)] obtain a
      where a: "ivp maxint iv (Suc d) (dsub v (double_of_int 1)) z (PyInt (n - 1)) = Inr a"
      by blast
    from Suc.IH [OF n(2,3,4)] obtain b
      where b: "ivp maxint iv (Suc d) (dadd v (double_of_int 1)) z (PyInt (n - 1)) = Inr b"
      by blast
    have "ivp maxint iv (Suc (Suc d)) v z (PyInt n) = Inr ((a - b) / 2)"
      using n(1) Suc.prems(2) by (subst ivp_unfold) (simp_all add: a b)
    then show ?thesis ..
  qed
qed

lemma ivp_step:
  assumes "1 \<le> n" and "n \<le> maxint" and "n \<le> int d"
  shows "\<exists>a b. ivp maxint iv d (dsub v (double_of_int 1)) z (PyInt (n - 1)) = Inr a \<and>
               ivp maxint iv d (dadd v (double_of_int 1)) z (PyInt (n - 1)) = Inr b \<and>
               ivp maxint iv (Suc d) v z (PyInt n) = Inr ((a - b) / 2)"
proof -
  from assms(1,3) obtain d' where d: "d = Suc d'"
    by (cases d) simp_all
  from assms d have n: "0 \<le> n - 1" "n - 1 \<le> maxint" "n - 1 \<le> int d'"
    by simp_all
  obtain a
    where a: "ivp maxint iv d (dsub v (double_of_int 1)) z (PyInt (n - 1)) = Inr a"
    using ivp_returns [OF n, of iv "dsub v (double_of_int 1)" z] unfolding d by blast
  obtain b
    where b: "ivp maxint iv d (dadd v (double_of_int 1)) z (PyInt (n - 1)) = Inr b"
    using ivp_returns [OF n, of iv "dadd v (double_of_int 1)" z] unfolding d by blast
  have "ivp maxint iv (Suc d) v z (PyInt n) = Inr ((a - b) / 2)"
    using assms(1,2) by (subst ivp_unfold) (simp_all add: a b)
  with a b show ?thesis by blast
qed

lemma ivp_one:
  "1 \<le> maxint \<Longrightarrow>
   ivp maxint iv (Suc (Suc d)) v z (PyInt 1) =
     Inr ((iv (dsub v (double_of_int 1)) z - iv (dadd v (double_of_int 1)) z) / 2)"
  by (subst ivp_unfold) (simp_all add: ivp_zero)

lemma ivp_two:
  "2 \<le> maxint \<Longrightarrow>
   ivp maxint iv (Suc (Suc (Suc d))) v z (PyInt 2) =
     Inr (((iv (dsub (dsub v (double_of_int 1)) (double_of_int 1)) z
            - iv (dadd (dsub v (double_of_int 1)) (double_of_int 1)) z) / 2
          - (iv (dsub (dadd v (double_of_int 1)) (double_of_int 1)) z
            - iv (dadd (dadd v (double_of_int 1)) (double_of_int 1)) z) / 2) / 2)"
  by (subst ivp_unfold) (simp_all add: ivp_one)

lemma ivp_rejects:
  "ivp maxint iv (Suc d) v z (PyFloat r) =
     Inl (ValueError ''n must be a non-negative integer.'')"
  "n < 0 \<Longrightarrow> ivp maxint iv (Suc d) v z (PyInt n) =
     Inl (ValueError ''n must be a non-negative integer.'')"
  "maxint < n \<Longrightarrow> ivp maxint iv (Suc d) v z (PyInt n) =
     Inl (ValueError ''n must be a non-negative integer.'')"
  by (simp_all add: ivp.simps)

lemma ivp_too_deep:
  "0 \<le> n \<Longrightarrow> n \<le> maxint \<Longrightarrow> int d \<le> n \<Longrightarrow>
   ivp maxint iv d v z (PyInt n) = Inl (RuntimeError ''maximum recursion depth exceeded'')"
proof (induction d arbitrary: n v)
  case 0
  show ?case by (simp add: ivp.simps)
next
  case (Suc d)
  then have n: "1 \<le> n" "0 \<le> n - 1" "n - 1 \<le> maxint" "int d \<le> n - 1"
    by simp_all
  show ?case
    using n(1) Suc.prems(2)
    by (subst ivp_unfold) (simp_all add: Suc.IH [OF n(2,3,4)])
qed

lemma h1vp_zero:
  "0 \<le> maxint \<Longrightarrow> h1vp maxint hankel1 (Suc d) v z (PyInt 0) = Inr (hankel1 v z)"
  by (simp add: h1vp.simps)

lemma h1vp_unfold:
  "1 \<le> n \<Longrightarrow> n \<le> maxint \<Longrightarrow>
   h1vp maxint hankel1 (Suc d) v z (PyInt n) =
     (case h1vp maxint hankel1 d (dsub v (double_of_int 1)) z (PyInt (n - 1)) of
        Inl e \<Rightarrow> Inl e
      | Inr a \<Rightarrow>
         (case h1vp maxint hankel1 d (dadd v (double_of_int 1)) z (PyInt (n - 1)) of
            Inl e \<Rightarrow> Inl e
          | Inr b \<Rightarrow> Inr ((a - b) / 2)))"
  by (simp add: h1vp.simps)

lemma h1vp_returns:
  "0 \<le> n \<Longrightarrow> n \<le> maxint \<Longrightarrow> n \<le> int d \<Longrightarrow>
   \<exists>a. h1vp maxint hankel1 (Suc d) v z (PyInt n) = Inr a"
proof (induction d arbitrary: n v)
  case 0
  then have "n = 0" by simp
  with 0 show ?case by (simp add: h1vp_zero)
next
  case (Suc d)
  show ?case
  proof (cases "n = 0")
    case True
    with Suc.prems show ?thesis by (simp add: h1vp_zero)
  next
    case False
    with Suc.prems have n: "1 \<le> n" "0 \<le> n - 1" "n - 1 \<le> maxint" "n - 1 \<le> int d"
      by simp_all
    from Suc.IH [OF n(2,3,4)] obtain a
      where a: "h1vp maxint hankel1 (Suc d) (dsub v (double_of_int 1)) z (PyInt (n - 1)) = Inr a"
      by blast
    from Suc.IH [OF n(2,3,4)] obtain b
      where b: "h1vp maxint hankel1 (Suc d) (dadd v (double_of_int 1)) z (PyInt (n - 1)) = Inr b"
      by blast
    have "h1vp maxint hankel1 (Suc (Suc d)) v z (PyInt n) = Inr ((a - b) / 2)"
      using n(1) Suc.prems(2) by (subst h1vp_unfold) (simp_all add: a b)
    then show ?thesis ..
  qed
qed

lemma h1vp_step:
  assumes "1 \<le> n" and "n \<le> maxint" and "n \<le> int d"
  shows "\<exists>a b. h1vp maxint hankel1 d (dsub v (double_of_int 1)) z (PyInt (n - 1)) = Inr a \<and>
               h1vp maxint hankel1 d (dadd v (double_of_int 1)) z (PyInt (n - 1)) = Inr b \<and>
               h1vp maxint hankel1 (Suc d) v z (PyInt n) = Inr ((a - b) / 2)"
proof -
  from assms(1,3) obtain d' where d: "d = Suc d'"
    by (cases d) simp_all
  from assms d have n: "0 \<le> n - 1" "n - 1 \<le> maxint" "n - 1 \<le> int d'"
    by simp_all
  obtain a
    where a: "h1vp maxint hankel1 d (dsub v (double_of_int 1)) z (PyInt (n - 1)) = Inr a"
    using h1vp_returns [OF n, of hankel1 "dsub v (double_of_int 1)" z] unfolding d by blast
  obtain b
    where b: "h1vp maxint hankel1 d (dadd v (double_of_int 1)) z (PyInt (n - 1)) = Inr b"
    using h1vp_returns [OF n, of hankel1 "dadd v (double_of_int 1)" z] unfolding d by blast
  have "h1vp maxint hankel1 (Suc d) v z (PyInt n) = Inr ((a - b) / 2)"
    using assms(1,2) by (subst h1vp_unfold) (simp_all add: a b)
  with a b show ?thesis by blast
qed

lemma h1vp_one:
  "1 \<le> maxint \<Longrightarrow>
   h1vp maxint hankel1 (Suc (Suc d)) v z (PyInt 1) =
     Inr ((hankel1 (dsub v (double_of_int 1)) z - hankel1 (dadd v (double_of_int 1)) z) / 2)"
  by (subst h1vp_unfold) (simp_all add: h1vp_zero)

lemma h1vp_two:
  "2 \<le> maxint \<Longrightarrow>
   h1vp maxint hankel1 (Suc (Suc (Suc d))) v z (PyInt 2) =
     Inr (((hankel1 (dsub (dsub v (double_of_int 1)) (double_of_int 1)) z
            - hankel1 (dadd (dsub v (double_of_int 1)) (double_of_int 1)) z) / 2
          - (hankel1 (dsub (dadd v (double_of_int 1)) (double_of_int 1)) z
            - hankel1 (dadd (dadd v (double_of_int 1)) (double_of_int 1)) z) / 2) / 2)"
  by (subst h1vp_unfold) (simp_all add: h1vp_one)

lemma h1vp_rejects:
  "h1vp maxint hankel1 (Suc d) v z (PyFloat r) =
     Inl (ValueError ''n must be a non-negative integer.'')"
  "n < 0 \<Longrightarrow> h1vp maxint hankel1 (Suc d) v z (PyInt n) =
     Inl (ValueError ''n must be a non-negative integer.'')"
  "maxint < n \<Longrightarrow> h1vp maxint hankel1 (Suc d) v z (PyInt n) =
     Inl (ValueError ''n must be a non-negative integer.'')"
  by (simp_all add: h1vp.simps)

lemma h1vp_too_deep:
  "0 \<le> n \<Longrightarrow> n \<le> maxint \<Longrightarrow> int d \<le> n \<Longrightarrow>
   h1vp maxint hankel1 d v z (PyInt n) = Inl (RuntimeError ''maximum recursion depth exceeded'')"
proof (induction d arbitrary: n v)
  case 0
  show ?case by (simp add: h1vp.simps)
next
  case (Suc d)
  then have n: "1 \<le> n" "0 \<le> n - 1" "n - 1 \<le> maxint" "int d \<le> n - 1"
    by simp_all
  show ?case
    using n(1) Suc.prems(2)
    by (subst h1vp_unfold) (simp_all add: Suc.IH [OF n(2,3,4)])
qed

lemma h2vp_zero:
  "0 \<le> maxint \<Longrightarrow> h2vp maxint hankel2 (Suc d) v z (PyInt 0) = Inr (hankel2 v z)"
  by (simp add: h2vp.simps)

lemma h2vp_unfold:
  "1 \<le> n \<Longrightarrow> n \<le> maxint \<Longrightarrow>
   h2vp maxint hankel2 (Suc d) v z (PyInt n) =
     (case h2vp maxint hankel2 d (dsub v (double_of_int 1)) z (PyInt (n - 1)) of
        Inl e \<Rightarrow> Inl e
      | Inr a \<Rightarrow>
         (case h2vp maxint hankel2 d (dadd v (double_of_int 1)) z (PyInt (n - 1)) of
            Inl e \<Rightarrow> Inl e
          | Inr b \<Rightarrow> Inr ((a - b) / 2)))"
  by (simp add: h2vp.simps)

lemma h2vp_returns:
  "0 \<le> n \<Longrightarrow> n \<le> maxint \<Longrightarrow> n \<le> int d \<Longrightarrow>
   \<exists>a. h2vp maxint hankel2 (Suc d) v z (PyInt n) = Inr a"
proof (induction d arbitrary: n v)
  case 0
  then have "n = 0" by simp
  with 0 show ?case by (simp add: h2vp_zero)
next
  case (Suc d)
  show ?case
  proof (cases "n = 0")
    case True
    with Suc.prems show ?thesis by (simp add: h2vp_zero)
  next
    case False
    with Suc.prems have n: "1 \<le> n" "0 \<le> n - 1" "n - 1 \<le> maxint" "n - 1 \<le> int d"
      by simp_all
    from Suc.IH [OF n(2,3,4)] obtain a
      where a: "h2vp maxint hankel2 (Suc d) (dsub v (double_of_int 1)) z (PyInt (n - 1)) = Inr a"
      by blast
    from Suc.IH [OF n(2,3,4)] obtain b
      where b: "h2vp maxint hankel2 (Suc d) (dadd v (double_of_int 1)) z (PyInt (n - 1)) = Inr b"
      by blast
    have "h2vp maxint hankel2 (Suc (Suc d)) v z (PyInt n) = Inr ((a - b) / 2)"
      using n(1) Suc.prems(2) by (subst h2vp_unfold) (simp_all add: a b)
    then show ?thesis ..
  qed
qed

lemma h2vp_step:
  assumes "1 \<le> n" and "n \<le> maxint" and "n \<le> int d"
  shows "\<exists>a b. h2vp maxint hankel2 d (dsub v (double_of_int 1)) z (PyInt (n - 1)) = Inr a \<and>
               h2vp maxint hankel2 d (dadd v (double_of_int 1)) z (PyInt (n - 1)) = Inr b \<and>
               h2vp maxint hankel2 (Suc d) v z (PyInt n) = Inr ((a - b) / 2)"
proof -
  from assms(1,3) obtain d' where d: "d = Suc d'"
    by (cases d) simp_all
  from assms d have n: "0 \<le> n - 1" "n - 1 \<le> maxint" "n - 1 \<le> int d'"
    by simp_all
  obtain a
    where a: "h2vp maxint hankel2 d (dsub v (double_of_int 1)) z (PyInt (n - 1)) = Inr a"
    using h2vp_returns [OF n, of hankel2 "dsub v (double_of_int 1)" z] unfolding d by blast
  obtain b
    where b: "h2vp maxint hankel2 d (dadd v (double_of_int 1)) z (PyInt (n - 1)) = Inr b"
    using h2vp_returns [OF n, of hankel2 "dadd v (double_of_int 1)" z] unfolding d by blast
  have "h2vp maxint hankel2 (Suc d) v z (PyInt n) = Inr ((a - b) / 2)"
    using assms(1,2) by (subst h2vp_unfold) (simp_all add: a b)
  with a b show ?thesis by blast
qed

lemma h2vp_one:
  "1 \<le> maxint \<Longrightarrow>
   h2vp maxint hankel2 (Suc (Suc d)) v z (PyInt 1) =
     Inr ((hankel2 (dsub v (double_of_int 1)) z - hankel2 (dadd v (double_of_int 1)) z) / 2)"
  by (subst h2vp_unfold) (simp_all add: h2vp_zero)

lemma h2vp_two:
  "2 \<le> maxint \<Longrightarrow>
   h2vp maxint hankel2 (Suc (Suc (Suc d))) v z (PyInt 2) =
     Inr (((hankel2 (dsub (dsub v (double_of_int 1)) (double_of_int 1)) z
            - hankel2 (dadd (dsub v (double_of_int 1)) (double_of_int 1)) z) / 2
          - (hankel2 (dsub (dadd v (double_of_int 1)) (double_of_int 1)) z
            - hankel2 (dadd (dadd v (double_of_int 1)) (double_of_int 1)) z) / 2) / 2)"
  by (subst h2vp_unfold) (simp_all add: h2vp_one)

lemma h2vp_rejects:
  "h2vp maxint hankel2 (Suc d) v z (PyFloat r) =
     Inl (ValueError ''n must be a non-negative integer.'')"
  "n < 0 \<Longrightarrow> h2vp maxint hankel2 (Suc d) v z (PyInt n) =
     Inl (ValueError ''n must be a non-negative integer.'')"
  "maxint < n \<Longrightarrow> h2vp maxint hankel2 (Suc d) v z (PyInt n) =
     Inl (ValueError ''n must be a non-negative integer.'')"
  by (simp_all add: h2vp.simps)

lemma h2vp_too_deep:
  "0 \<le> n \<Longrightarrow> n \<le> maxint \<Longrightarrow> int d \<le> n \<Longrightarrow>
   h2vp maxint hankel2 d v z (PyInt n) = Inl (RuntimeError ''maximum recursion depth exceeded'')"
proof (induction d arbitrary: n v)
  case 0
  show ?case by (simp add: h2vp.simps)
next
  case (Suc d)
  then have n: "1 \<le> n" "0 \<le> n - 1" "n - 1 \<le> maxint" "int d \<le> n - 1"
    by simp_all
  show ?case
    using n(1) Suc.prems(2)
    by (subst h2vp_unfold) (simp_all add: Suc.IH [OF n(2,3,4)])
qed

text \<open>
  The double \<^verbatim>\<open>0.1\<close> lies within half a unit in the last place of \<open>1/10\<close>, and the
  orders the wrappers compute from it: \<^verbatim>\<open>(0.1-1)+1\<close> is \<^verbatim>\<open>0.09999999999999998\<close> and
  \<^verbatim>\<open>(0.1+1)-1\<close> is \<^verbatim>\<open>0.10000000000000009\<close>, neither is \<^verbatim>\<open>0.1\<close>.
\<close>

lemma one_tenth_nearest: "\<bar>dval one_tenth - 1 / 10\<bar> < 1 / 2 ^ 57"
  by (simp add: one_tenth_def powr_minus powr_numeral field_simps abs_if)

lemma one_tenth_down_up:
  "dadd (dsub one_tenth (double_of_int 1)) (double_of_int 1) = Double 7205759403792792 (- 56)"
  by code_simp

lemma one_tenth_up_down:
  "dsub (dadd one_tenth (double_of_int 1)) (double_of_int 1) = Double 7205759403792800 (- 56)"
  by code_simp

lemma one_tenth_down_down:
  "dsub (dsub one_tenth (double_of_int 1)) (double_of_int 1) = Double (- 8556839292003942) (- 52)"
  by code_simp

lemma one_tenth_up_up:
  "dadd (dadd one_tenth (double_of_int 1)) (double_of_int 1) = Double 4728779608739021 (- 51)"
  by code_simp

lemma one_tenth_minus_two:
  "dsub one_tenth (double_of_int 2) = Double (- 8556839292003942) (- 52)"
  by code_simp

lemma one_tenth_plus_two:
  "dadd one_tenth (double_of_int 2) = Double 4728779608739021 (- 51)"
  by code_simp

lemma at_one_tenth_values:
  "at_one_tenth one_tenth z = 1"
  "at_one_tenth (dadd (dsub one_tenth (double_of_int 1)) (double_of_int 1)) z = 0"
  "at_one_tenth (dsub (dadd one_tenth (double_of_int 1)) (double_of_int 1)) z = 0"
  "at_one_tenth (dsub (dsub one_tenth (double_of_int 1)) (double_of_int 1)) z = 0"
  "at_one_tenth (dadd (dadd one_tenth (double_of_int 1)) (double_of_int 1)) z = 0"
  "at_one_tenth (dsub one_tenth (double_of_int 2)) z = 0"
  "at_one_tenth (dadd one_tenth (double_of_int 2)) z = 0"
  unfolding one_tenth_down_up one_tenth_up_down one_tenth_down_down one_tenth_up_up
    one_tenth_minus_two one_tenth_plus_two
  by (simp_all add: at_one_tenth_def one_tenth_def)

text \<open>
  Claim C5 as stated fails on the code.  At the order \<^verbatim>\<open>0.1\<close>, with \<^verbatim>\<open>n = 2\<close> and a base
  function that is 1 at the order \<^verbatim>\<open>0.1\<close> and 0 at every other order, \<^verbatim>\<open>jvp\<close> returns
  0: the two halvings call the base function at \<^verbatim>\<open>(0.1-1)-1\<close>, \<^verbatim>\<open>(0.1-1)+1\<close>,
  \<^verbatim>\<open>(0.1+1)-1\<close> and \<^verbatim>\<open>(0.1+1)+1\<close>, none of which is \<^verbatim>\<open>0.1\<close>.  The four-term
  combination \<open>(F(v - 2, z) - 2 F(v, z) + F(v + 2, z)) / 4\<close> is \<open>- 1/2\<close>.
\<close>

theorem jvp_four_term_counterexample:
  "jvp 2147483647 at_one_tenth 1000 one_tenth () (PyInt 2) = Inr 0
   \<and> (at_one_tenth (dsub one_tenth (double_of_int 2)) ()
        - 2 * at_one_tenth one_tenth ()
        + at_one_tenth (dadd one_tenth (double_of_int 2)) ()) / 4 = - 1 / 2
   \<and> jvp 2147483647 at_one_tenth 1000 one_tenth () (PyInt 2) \<noteq>
       Inr ((at_one_tenth (dsub one_tenth (double_of_int 2)) ()
              - 2 * at_one_tenth one_tenth ()
              + at_one_tenth (dadd one_tenth (double_of_int 2)) ()) / 4)"
proof -
  have d: "(1000::nat) = Suc (Suc (Suc 997))"
    by simp
  have "jvp 2147483647 at_one_tenth 1000 one_tenth () (PyInt 2) = Inr 0"
    unfolding d by (subst jvp_two) (simp_all add: at_one_tenth_values)
  then show ?thesis
    by (simp add: at_one_tenth_values)
qed

text \<open>
  Claim C5, amended.  For each of \<^verbatim>\<open>jvp\<close>, \<^verbatim>\<open>yvp\<close>, \<^verbatim>\<open>kvp\<close>, \<^verbatim>\<open>ivp\<close>, \<^verbatim>\<open>h1vp\<close>, \<^verbatim>\<open>h2vp\<close>,
  every order \<open>v\<close> and argument \<open>z\<close>: with \<open>n = 0\<close> the wrapper returns the value of
  its base function at \<open>(v, z)\<close>, in the one frame of the call itself; for an int
  \<open>n \<ge> 1\<close>, with at least \<open>n\<close> frames left for the inner calls, the two calls with
  \<open>n - 1\<close> at the orders \<open>v - 1\<close> and \<open>v + 1\<close> return values \<open>a\<close> and \<open>b\<close>, and the
  wrapper returns \<open>(a - b) / 2\<close>; and with \<open>n = 2\<close> it returns the combination of two
  halvings \<open>((F((v-1)-1, z) - F((v-1)+1, z)) / 2 - (F((v+1)-1, z) - F((v+1)+1, z)) / 2) / 2\<close>
  of the base function \<open>F\<close> at the four orders as the float arithmetic computes
  them.
\<close>

theorem derivative_wrappers_recurrence:
  "((0 \<le> maxint \<longrightarrow> jvp maxint jv (Suc d) v z (PyInt 0) = Inr (jv v z))
    \<and> (1 \<le> n \<and> n \<le> maxint \<and> n \<le> int d \<longrightarrow>
         (\<exists>a b. jvp maxint jv d (dsub v (double_of_int 1)) z (PyInt (n - 1)) = Inr a \<and>
                jvp maxint jv d (dadd v (double_of_int 1)) z (PyInt (n - 1)) = Inr b \<and>
                jvp maxint jv (Suc d) v z (PyInt n) = Inr ((a - b) / 2)))
    \<and> (2 \<le> maxint \<longrightarrow>
         jvp maxint jv (Suc (Suc (Suc d))) v z (PyInt 2) =
           Inr (((jv (dsub (dsub v (double_of_int 1)) (double_of_int 1)) z
                  - jv (dadd (dsub v (double_of_int 1)) (double_of_int 1)) z) / 2
                - (jv (dsub (dadd v (double_of_int 1)) (double_of_int 1)) z
                  - jv (dadd (dadd v (double_of_int 1)) (double_of_int 1)) z) / 2) / 2)))
   \<and> ((0 \<le> maxint \<longrightarrow> yvp maxint yv (Suc d) v z (PyInt 0) = Inr (yv v z))
    \<and> (1 \<le> n \<and> n \<le> maxint \<and> n \<le> int d \<longrightarrow>
         (\<exists>a b. yvp maxint yv d (dsub v (double_of_int 1)) z (PyInt (n - 1)) = Inr a \<and>
                yvp maxint yv d (dadd v (double_of_int 1)) z (PyInt (n - 1)) = Inr b \<and>
                yvp maxint yv (Suc d) v z (PyInt n) = Inr ((a - b) / 2)))
    \<and> (2 \<le> maxint \<longrightarrow>
         yvp maxint yv (Suc (Suc (Suc d))) v z (PyInt 2) =
           Inr (((yv (dsub (dsub v (double_of_int 1)) (double_of_int 1)) z
                  - yv (dadd (dsub v (double_of_int 1)) (double_of_int 1)) z) / 2
                - (yv (dsub (dadd v (double_of_int 1)) (double_of_int 1)) z
                  - yv (dadd (dadd v (double_of_int 1)) (double_of_int 1)) z) / 2) / 2)))
   \<and> ((0 \<le> maxint \<longrightarrow> kvp maxint kv (Suc d) v z (PyInt 0) = Inr (kv v z))
    \<and> (1 \<le> n \<and> n \<le> maxint \<and> n \<le> int d \<longrightarrow>
         (\<exists>a b. kvp maxint kv d (dsub v (double_of_int 1)) z (PyInt (n - 1)) = Inr a \<and>
                kvp maxint kv d (dadd v (double_of_int 1)) z (PyInt (n - 1)) = Inr b \<and>
                kvp maxint kv (Suc d) v z (PyInt n) = Inr ((a - b) / 2)))
    \<and> (2 \<le> maxint \<longrightarrow>
         kvp maxint kv (Suc (Suc (Suc d))) v z (PyInt 2) =
           Inr (((kv (dsub (dsub v (double_of_int 1)) (double_of_int 1)) z
                  - kv (dadd (dsub v (double_of_int 1)) (double_of_int 1)) z) / 2
                - (kv (dsub (dadd v (double_of_int 1)) (double_of_int 1)) z
                  - kv (dadd (dadd v (double_of_int 1)) (double_of_int 1)) z) / 2) / 2)))
   \<and> ((0 \<le> maxint \<longrightarrow> ivp maxint iv (Suc d) v z (PyInt 0) = Inr (iv v z))
    \<and> (1 \<le> n \<and> n \<le> maxint \<and> n \<le> int d \<longrightarrow>
         (\<exists>a b. ivp maxint iv d (dsub v (double_of_int 1)) z (PyInt (n - 1)) = Inr a \<and>
                ivp maxint iv d (dadd v (double_of_int 1)) z (PyInt (n - 1)) = Inr b \<and>
                ivp maxint iv (Suc d) v z (PyInt n) = Inr ((a - b) / 2)))
    \<and> (2 \<le> maxint \<longrightarrow>
         ivp maxint iv (Suc (Suc (Suc d))) v z (PyInt 2) =
           Inr (((iv (dsub (dsub v (double_of_int 1)) (double_of_int 1)) z
                  - iv (dadd (dsub v (double_of_int 1)) (double_of_int 1)) z) / 2
                - (iv (dsub (dadd v (double_of_int 1)) (double_of_int 1)) z
                  - iv (dadd (dadd v (double_of_int 1)) (double_of_int 1)) z) / 2) / 2)))
   \<and> ((0 \<le> maxint \<longrightarrow> h1vp maxint hankel1 (Suc d) v z (PyInt 0) = Inr (hankel1 v z))
    \<and> (1 \<le> n \<and> n \<le> maxint \<and> n \<le> int d \<longrightarrow>
         (\<exists>a b. h1vp maxint hankel1 d (dsub v (double_of_int 1)) z (PyInt (n - 1)) = Inr a \<and>
                h1vp maxint hankel1 d (dadd v (double_of_int 1)) z (PyInt (n - 1)) = Inr b \<and>
                h1vp maxint hankel1 (Suc d) v z (PyInt n) = Inr ((a - b) / 2)))
    \<and> (2 \<le> maxint \<longrightarrow>
         h1vp maxint hankel1 (Suc (Suc (Suc d))) v z (PyInt 2) =
           Inr (((hankel1 (dsub (dsub v (double_of_int 1)) (double_of_int 1)) z
                  - hankel1 (dadd (dsub v (double_of_int 1)) (double_of_int 1)) z) / 2
                - (hankel1 (dsub (dadd v (double_of_int 1)) (double_of_int 1)) z
                  - hankel1 (dadd (dadd v (double_of_int 1)) (double_of_int 1)) z) / 2) / 2)))
   \<and> ((0 \<le> maxint \<longrightarrow> h2vp maxint hankel2 (Suc d) v z (PyInt 0) = Inr (hankel2 v z))
    \<and> (1 \<le> n \<and> n \<le> maxint \<and> n \<le> int d \<longrightarrow>
         (\<exists>a b. h2vp maxint hankel2 d (dsub v (double_of_int 1)) z (PyInt (n - 1)) = Inr a \<and>
                h2vp maxint hankel2 d (dadd v (double_of_int 1)) z (PyInt (n - 1)) = Inr b \<and>
                h2vp maxint hankel2 (Suc d) v z (PyInt n) = Inr ((a - b) / 2)))
    \<and> (2 \<le> maxint \<longrightarrow>
         h2vp maxint hankel2 (Suc (Suc (Suc d))) v z (PyInt 2) =
           Inr (((hankel2 (dsub (dsub v (double_of_int 1)) (double_of_int 1)) z
                  - hankel2 (dadd (dsub v (double_of_int 1)) (double_of_int 1)) z) / 2
                - (hankel2 (dsub (dadd v (double_of_int 1)) (double_of_int 1)) z
                  - hankel2 (dadd (dadd v (double_of_int 1)) (double_of_int 1)) z) / 2) / 2)))"
  by (intro conjI impI; (elim conjE)?;
      (rule jvp_zero jvp_step jvp_two yvp_zero yvp_step yvp_two kvp_zero kvp_step kvp_two ivp_zero ivp_step ivp_two h1vp_zero h1vp_step h1vp_two h2vp_zero h2vp_step h2vp_two; assumption))

theorem derivative_wrappers_recurrence_witness:
  "(jvp 2147483647 at_one_tenth (Suc 3) one_tenth () (PyInt 0) = Inr (at_one_tenth one_tenth ())
    \<and> (\<exists>a b. jvp 2147483647 at_one_tenth 3 (dsub one_tenth (double_of_int 1)) () (PyInt (3 - 1)) = Inr a \<and>
            jvp 2147483647 at_one_tenth 3 (dadd one_tenth (double_of_int 1)) () (PyInt (3 - 1)) = Inr b \<and>
            jvp 2147483647 at_one_tenth (Suc 3) one_tenth () (PyInt 3) = Inr ((a - b) / 2))
    \<and> jvp 2147483647 at_one_tenth (Suc (Suc (Suc 3))) one_tenth () (PyInt 2) =
         Inr (((at_one_tenth (dsub (dsub one_tenth (double_of_int 1)) (double_of_int 1)) ()
                - at_one_tenth (dadd (dsub one_tenth (double_of_int 1)) (double_of_int 1)) ()) / 2
              - (at_one_tenth (dsub (dadd one_tenth (double_of_int 1)) (double_of_int 1)) ()
                - at_one_tenth (dadd (dadd one_tenth (double_of_int 1)) (double_of_int 1)) ()) / 2) / 2))
   \<and> (yvp 2147483647 at_one_tenth (Suc 3) one_tenth () (PyInt 0) = Inr (at_one_tenth one_tenth ())
    \<and> (\<exists>a b. yvp 2147483647 at_one_tenth 3 (dsub one_tenth (double_of_int 1)) () (PyInt (3 - 1)) = Inr a \<and>
            yvp 2147483647 at_one_tenth 3 (dadd one_tenth (double_of_int 1)) () (PyInt (3 - 1)) = Inr b \<and>
            yvp 2147483647 at_one_tenth (Suc 3) one_tenth () (PyInt 3) = Inr ((a - b) / 2))
    \<and> yvp 2147483647 at_one_tenth (Suc (Suc (Suc 3))) one_tenth () (PyInt 2) =
         Inr (((at_one_tenth (dsub (dsub one_tenth (double_of_int 1)) (double_of_int 1)) ()
                - at_one_tenth (dadd (dsub one_tenth (double_of_int 1)) (double_of_int 1)) ()) / 2
              - (at_one_tenth (dsub (dadd one_tenth (double_of_int 1)) (double_of_int 1)) ()
                - at_one_tenth (dadd (dadd one_tenth (double_of_int 1)) (double_of_int 1)) ()) / 2) / 2))
   \<and> (kvp 2147483647 at_one_tenth (Suc 3) one_tenth () (PyInt 0) = Inr (at_one_tenth one_tenth ())
    \<and> (\<exists>a b. kvp 2147483647 at_one_tenth 3 (dsub one_tenth (double_of_int 1)) () (PyInt (3 - 1)) = Inr a \<and>
            kvp 2147483647 at_one_tenth 3 (dadd one_tenth (double_of_int 1)) () (PyInt (3 - 1)) = Inr b \<and>
            kvp 2147483647 at_one_tenth (Suc 3) one_tenth () (PyInt 3) = Inr ((a - b) / 2))
    \<and> kvp 2147483647 at_one_tenth (Suc (Suc (Suc 3))) one_tenth () (PyInt 2) =
         Inr (((at_one_tenth (dsub (dsub one_tenth (double_of_int 1)) (double_of_int 1)) ()
                - at_one_tenth (dadd (dsub one_tenth (double_of_int 1)) (double_of_int 1)) ()) / 2
              - (at_one_tenth (dsub (dadd one_tenth (double_of_int 1)) (double_of_int 1)) ()
                - at_one_tenth (dadd (dadd one_tenth (double_of_int 1)) (double_of_int 1)) ()) / 2) / 2))
   \<and> (ivp 2147483647 at_one_tenth (Suc 3) one_tenth () (PyInt 0) = Inr (at_one_tenth one_tenth ())
    \<and> (\<exists>a b. ivp 2147483647 at_one_tenth 3 (dsub one_tenth (double_of_int 1)) () (PyInt (3 - 1)) = Inr a \<and>
            ivp 2147483647 at_one_tenth 3 (dadd one_tenth (double_of_int 1)) () (PyInt (3 - 1)) = Inr b \<and>
            ivp 2147483647 at_one_tenth (Suc 3) one_tenth () (PyInt 3) = Inr ((a - b) / 2))
    \<and> ivp 2147483647 at_one_tenth (Suc (Suc (Suc 3))) one_tenth () (PyInt 2) =
         Inr (((at_one_tenth (dsub (dsub one_tenth (double_of_int 1)) (double_of_int 1)) ()
                - at_one_tenth (dadd (dsub one_tenth (double_of_int 1)) (double_of_int 1)) ()) / 2
              - (at_one_tenth (dsub (dadd one_tenth (double_of_int 1)) (double_of_int 1)) ()
                - at_one_tenth (dadd (dadd one_tenth (double_of_int 1)) (double_of_int 1)) ()) / 2) / 2))
   \<and> (h1vp 2147483647 at_one_tenth (Suc 3) one_tenth () (PyInt 0) = Inr (at_one_tenth one_tenth ())
    \<and> (\<exists>a b. h1vp 2147483647 at_one_tenth 3 (dsub one_tenth (double_of_int 1)) () (PyInt (3 - 1)) = Inr a \<and>
            h1vp 2147483647 at_one_tenth 3 (dadd one_tenth (double_of_int 1)) () (PyInt (3 - 1)) = Inr b \<and>
            h1vp 2147483647 at_one_tenth (Suc 3) one_tenth () (PyInt 3) = Inr ((a - b) / 2))
    \<and> h1vp 2147483647 at_one_tenth (Suc (Suc (Suc 3))) one_tenth () (PyInt 2) =
         Inr (((at_one_tenth (dsub (dsub one_tenth (double_of_int 1)) (double_of_int 1)) ()
                - at_one_tenth (dadd (dsub one_tenth (double_of_int 1)) (double_of_int 1)) ()) / 2
              - (at_one_tenth (dsub (dadd one_tenth (double_of_int 1)) (double_of_int 1)) ()
                - at_one_tenth (dadd (dadd one_tenth (double_of_int 1)) (double_of_int 1)) ()) / 2) / 2))
   \<and> (h2vp 2147483647 at_one_tenth (Suc 3) one_tenth () (PyInt 0) = Inr (at_one_tenth one_tenth ())
    \<and> (\<exists>a b. h2vp 2147483647 at_one_tenth 3 (dsub one_tenth (double_of_int 1)) () (PyInt (3 - 1)) = Inr a \<and>
            h2vp 2147483647 at_one_tenth 3 (dadd one_tenth (double_of_int 1)) () (PyInt (3 - 1)) = Inr b \<and>
            h2vp 2147483647 at_one_tenth (Suc 3) one_tenth () (PyInt 3) = Inr ((a - b) / 2))
    \<and> h2vp 2147483647 at_one_tenth (Suc (Suc (Suc 3))) one_tenth () (PyInt 2) =
         Inr (((at_one_tenth (dsub (dsub one_tenth (double_of_int 1)) (double_of_int 1)) ()
                - at_one_tenth (dadd (dsub one_tenth (double_of_int 1)) (double_of_int 1)) ()) / 2
              - (at_one_tenth (dsub (dadd one_tenth (double_of_int 1)) (double_of_int 1)) ()
                - at_one_tenth (dadd (dadd one_tenth (double_of_int 1)) (double_of_int 1)) ()) / 2) / 2))"
  using derivative_wrappers_recurrence
    [where maxint = 2147483647 and d = 3 and n = 3 and v = one_tenth and z = "()"
       and jv = at_one_tenth and yv = at_one_tenth and kv = at_one_tenth
       and iv = at_one_tenth and ?hankel1.0 = at_one_tenth and ?hankel2.0 = at_one_tenth]
  by simp

section \<open>sinc, the inverse error functions, gammaincinv\<close>

lemma zip_map_same: "zip (map f xs) (map g xs) = map (\<lambda>x. (f x, g x)) xs"
  by (induction xs) simp_all

lemma sinc_scalar:
  "sinc (Scalar n) =
     Scalar (PyFloat (if val_of n = 0 then 1 else sin (pi * val_of n) / (pi * val_of n)))"
  by (simp add: sinc_def mult.commute)

lemma sinc_array:
  "sinc (Array ns) =
     Array (map (\<lambda>n. PyFloat (if val_of n = 0 then 1
                              else sin (pi * val_of n) / (pi * val_of n))) ns)"
  by (simp add: sinc_def zip_map_same mult.commute o_def)

text \<open>
  Claim C4.  \<^verbatim>\<open>sinc(0)\<close> is 1.0, for the int 0 and for the float 0; for every number
  \<open>x\<close> that is not zero, negative ones included, \<^verbatim>\<open>sinc(x)\<close> is
  \<open>sin(pi x) / (pi x)\<close>; and on an array \<^verbatim>\<open>sinc\<close> does this element by element.
\<close>

theorem sinc_contract:
  "sinc (Scalar (PyInt 0)) = Scalar (PyFloat 1.0)
   \<and> sinc (Scalar (PyFloat 0)) = Scalar (PyFloat 1.0)
   \<and> (val_of n \<noteq> 0 \<longrightarrow>
        sinc (Scalar n) = Scalar (PyFloat (sin (pi * val_of n) / (pi * val_of n))))
   \<and> sinc (Array ns) =
        Array (map (\<lambda>n. PyFloat (if val_of n = 0 then 1.0
                                 else sin (pi * val_of n) / (pi * val_of n))) ns)"
  by (simp add: sinc_scalar sinc_array)

theorem sinc_contract_witness:
  "val_of (PyFloat (- 1 / 2)) \<noteq> 0
   \<and> sinc (Scalar (PyFloat (- 1 / 2))) = Scalar (PyFloat (2 / pi))
   \<and> sinc (Array [PyInt 0, PyFloat (1 / 2), PyInt 1]) =
       Array [PyFloat 1, PyFloat (2 / pi), PyFloat 0]"
  using sinc_contract [of "PyFloat (- 1 / 2)" "[PyInt 0, PyFloat (1 / 2), PyInt 1]"]
  by (simp add: sin_minus)

lemma erfinv_scalar:
  "erfinv ndtri (Scalar y) = Scalar (PyFloat (ndtri ((val_of y + 1) / 2) / sqrt 2))"
  by (simp add: erfinv_def)

lemma erfcinv_scalar:
  "erfcinv ndtri (Scalar y) = Scalar (PyFloat (ndtri ((2 - val_of y) / 2) / sqrt 2))"
  by (simp add: erfcinv_def)

lemma erfinv_array:
  "erfinv ndtri (Array ys) =
     Array (map (\<lambda>y. PyFloat (ndtri ((val_of y + 1) / 2) / sqrt 2)) ys)"
  by (simp add: erfinv_def o_def)

lemma erfcinv_array:
  "erfcinv ndtri (Array ys) =
     Array (map (\<lambda>y. PyFloat (ndtri ((2 - val_of y) / 2) / sqrt 2)) ys)"
  by (simp add: erfcinv_def o_def)

text \<open>
  Claim C6.  For every input \<open>y\<close>, a number or an array taken element by element,
  \<^verbatim>\<open>erfinv(y)\<close> is \<open>ndtri((y + 1) / 2) / sqrt(2)\<close> and \<^verbatim>\<open>erfcinv(y)\<close> is
  \<open>ndtri((2 - y) / 2) / sqrt(2)\<close>.  In particular \<^verbatim>\<open>erfinv(0)\<close> is 0, given that the
  quantile routine returns the median 0 of the normal distribution at 1/2.
\<close>

theorem erfinv_contract:
  "erfinv ndtri (Scalar y) = Scalar (PyFloat (ndtri ((val_of y + 1) / 2) / sqrt 2))
   \<and> erfcinv ndtri (Scalar y) = Scalar (PyFloat (ndtri ((2 - val_of y) / 2) / sqrt 2))
   \<and> erfinv ndtri (Array ys) =
       Array (map (\<lambda>y. PyFloat (ndtri ((val_of y + 1) / 2) / sqrt 2)) ys)
   \<and> erfcinv ndtri (Array ys) =
       Array (map (\<lambda>y. PyFloat (ndtri ((2 - val_of y) / 2) / sqrt 2)) ys)
   \<and> (ndtri (1 / 2) = 0 \<longrightarrow>
       erfinv ndtri (Scalar (PyInt 0)) = Scalar (PyFloat 0) \<and>
       erfinv ndtri (Scalar (PyFloat 0)) = Scalar (PyFloat 0))"
  by (simp add: erfinv_scalar erfcinv_scalar erfinv_array erfcinv_array)

theorem erfinv_contract_witness:
  "(\<lambda>p::real. 2 * p - 1) (1 / 2) = 0
   \<and> erfinv (\<lambda>p. 2 * p - 1) (Scalar (PyInt 0)) = Scalar (PyFloat 0)
   \<and> erfinv (\<lambda>p. 2 * p - 1) (Scalar (PyFloat 0)) = Scalar (PyFloat 0)
   \<and> erfcinv (\<lambda>p. 2 * p - 1) (Scalar (PyInt 1)) = Scalar (PyFloat 0)"
  using erfinv_contract [of "\<lambda>p. 2 * p - 1" "PyInt 1" "[]"]
  by simp

text \<open>
  Claim C10.  For all inputs \<open>a\<close> and \<open>y\<close>, \<^verbatim>\<open>gammaincinv(a, y)\<close> is
  \<^verbatim>\<open>gammainccinv(a, 1 - y)\<close>: the wrapper checks neither argument and never raises
  on its own, it returns what the complemented inverse returns at \<open>1 - y\<close>, for a
  float, an int and an array \<open>y\<close> alike.
\<close>

theorem gammaincinv_contract:
  "gammaincinv gammainccinv a y = gammainccinv a (py_rsub 1 y)
   \<and> gammaincinv gammainccinv a (Scalar (PyFloat r)) = gammainccinv a (Scalar (PyFloat (1 - r)))
   \<and> gammaincinv gammainccinv a (Scalar (PyInt i)) = gammainccinv a (Scalar (PyInt (1 - i)))
   \<and> gammaincinv gammainccinv a (Array ys) = gammainccinv a (Array (map (rsub 1) ys))"
  by (simp add: gammaincinv_def)

section \<open>The zero-finding wrappers: validation\<close>

lemma isscalar_iff: "isscalar v \<longleftrightarrow> (\<exists>n. v = Scalar n)"
  by (cases v) simp_all

text \<open>An array is rejected with \<^verbatim>\<open>ValueError\<close> by each wrapper.\<close>

lemma zeros_reject_array:
  "jnjnp_zeros specfun (Array ns) = Inl (ValueError ''Number must be integer <=1400.'')"
  "y0_zeros specfun (Array ns) c = Inl (ValueError ''Arguments must be scalar positive integer.'')"
  "erf_zeros specfun (Array ns) = Inl (ValueError ''Argument must be positive scalar integer.'')"
  "ai_zeros specfun (Array ns) = Inl (ValueError ''nt must be a positive integer scalar.'')"
  "bi_zeros specfun (Array ns) = Inl (ValueError ''nt must be a positive integer scalar.'')"
  "ber_zeros specfun (Array ns) = Inl (ValueError ''nt must be positive integer scalar.'')"
  by simp_all

text \<open>A number that is not integer-valued, or not positive, is rejected.\<close>

lemma zeros_reject_number:
  assumes "val_of nt \<noteq> of_int \<lfloor>val_of nt\<rfloor> \<or> val_of nt \<le> 0"
  shows
    "y0_zeros specfun (Scalar nt) c =
       Inl (ValueError ''Arguments must be scalar positive integer.'')"
    "erf_zeros specfun (Scalar nt) = Inl (ValueError ''Argument must be positive scalar integer.'')"
    "ai_zeros specfun (Scalar nt) = Inl (ValueError ''nt must be a positive integer scalar.'')"
    "bi_zeros specfun (Scalar nt) = Inl (ValueError ''nt must be a positive integer scalar.'')"
    "ber_zeros specfun (Scalar nt) = Inl (ValueError ''nt must be positive integer scalar.'')"
  using assms by (auto simp: eq_commute)

text \<open>A positive integer-valued number is passed on to the routine.\<close>

lemma zeros_accept_number:
  assumes "val_of nt = of_int \<lfloor>val_of nt\<rfloor>" and "0 < val_of nt"
  shows
    "y0_zeros specfun (Scalar nt) c = Inr (cyzo specfun nt 0 (c \<noteq> 1))"
    "erf_zeros specfun (Scalar nt) = Inr (cerzo specfun (Scalar nt))"
    "ai_zeros specfun (Scalar nt) = Inr (airyzo specfun nt 1)"
    "bi_zeros specfun (Scalar nt) = Inr (airyzo specfun nt 2)"
    "ber_zeros specfun (Scalar nt) = Inr (klvnzo specfun nt 1)"
  using assms by (auto simp: global_name_def)

text \<open>
  \<^verbatim>\<open>jnjnp_zeros\<close> rejects a number that is not integer-valued or exceeds 1400; for
  every other number, 1400 included, the test is passed and the read of the name
  \<^verbatim>\<open>specfunc\<close> raises \<^verbatim>\<open>NameError\<close>, so the routine \<^verbatim>\<open>jdzo\<close> is never called.
\<close>

lemma jnjnp_zeros_rejects:
  assumes "val_of nt \<noteq> of_int \<lfloor>val_of nt\<rfloor> \<or> 1400 < val_of nt"
  shows "jnjnp_zeros specfun (Scalar nt) = Inl (ValueError ''Number must be integer <=1400.'')"
  using assms by (auto simp: eq_commute)

lemma jnjnp_zeros_1401:
  "jnjnp_zeros specfun (Scalar (PyInt 1401)) =
     Inl (ValueError ''Number must be integer <=1400.'')"
  by simp

lemma jnjnp_zeros_passes:
  assumes "val_of nt = of_int \<lfloor>val_of nt\<rfloor>" and "val_of nt \<le> 1400"
  shows "jnjnp_zeros specfun (Scalar nt) = Inl (NameError ''specfunc'')"
  using assms by (auto simp: global_name_def)

text \<open>
  Claim C7, at the input the code fails on.  \<^verbatim>\<open>jnjnp_zeros(1400)\<close> passes the test of
  the count and then raises \<^verbatim>\<open>NameError\<close>: the routine is read from the global name
  \<^verbatim>\<open>specfunc\<close>, which the module does not bind (it imports \<^verbatim>\<open>specfun\<close>).  The
  boundary value is not accepted by the call.
\<close>

theorem jnjnp_zeros_1400:
  "jnjnp_zeros specfun (Scalar (PyInt 1400)) = Inl (NameError ''specfunc'')"
  by (simp add: global_name_def)

section \<open>The Mathieu coefficient wrappers: results\<close>

text \<open>
  On valid arguments \<^verbatim>\<open>mathieu_even_coef\<close> prints the warning exactly when the
  estimate exceeds 251, and in either case returns the slice \<^verbatim>\<open>fc[:km]\<close> of the
  coefficients that \<^verbatim>\<open>fcoef\<close> computes with the code 2 for an odd and 1 for an even
  order.
\<close>

lemma mathieu_even_coef_valid:
  assumes "0 \<le> val_of q" and "val_of m = of_int \<lfloor>val_of m\<rfloor>" and "0 \<le> val_of m"
  shows "mathieu_even_coef specfun mathieu_a (Scalar m) (Scalar q) =
     (let km = py_int (PyFloat (qm_estimate (val_of q) + 0.5 * val_of m));
          m' = \<lfloor>val_of m\<rfloor>
      in (if km > 251 then [''Warning, too many predicted coefficients.''] else [],
          Inr (py_slice_to
                (fcoef specfun (if m' mod 2 \<noteq> 0 then 2 else 1) m' q (mathieu_a m' q)) km)))"
proof -
  from assms(2) have "\<not> py_cmp (\<noteq>) (Scalar m) (py_floor (Scalar m))"
    by simp
  with assms(1,3) show ?thesis
    by (simp add: global_name_def Let_def del: py_cmp.simps py_floor.simps)
qed

text \<open>
  On valid arguments \<^verbatim>\<open>mathieu_odd_coef\<close> never returns coefficients: after the
  estimate and the warning, the read of the name \<^verbatim>\<open>specfunc\<close> raises \<^verbatim>\<open>NameError\<close>.
\<close>

lemma mathieu_odd_coef_valid:
  assumes "0 \<le> val_of q" and "val_of m = of_int \<lfloor>val_of m\<rfloor>" and "0 < val_of m"
  shows "snd (mathieu_odd_coef specfun mathieu_b (Scalar m) (Scalar q)) =
     Inl (NameError ''specfunc'')"
proof -
  from assms(2) have "\<not> py_cmp (\<noteq>) (Scalar m) (py_floor (Scalar m))"
    by simp
  with assms(1,3) show ?thesis
    by (simp add: global_name_def Let_def del: py_cmp.simps py_floor.simps)
qed

text \<open>
  Claim C9, at an input the code fails on.  \<^verbatim>\<open>mathieu_odd_coef(1, 0)\<close> passes the
  validation (\<open>q = 0\<close>, \<open>m = 1\<close> a positive integer), estimates \<open>km = 8\<close> without a
  warning, and then raises \<^verbatim>\<open>NameError\<close> at \<^verbatim>\<open>specfunc.fcoef\<close> instead of returning
  the first \<open>km\<close> coefficients.
\<close>

theorem mathieu_odd_coef_1_0:
  "mathieu_odd_coef specfun mathieu_b (Scalar (PyInt 1)) (Scalar (PyInt 0)) =
     ([], Inl (NameError ''specfunc''))"
  by (simp add: global_name_def qm_estimate_def Let_def)

end
